theory Spec2Isabelle
  imports Complex_Main
begin

section \<open>JavaScript numbers\<close>

text \<open>
  Every quantity of the three calculators is a JavaScript \<^verbatim>\<open>number\<close>. The model keeps
  the three special values of that type next to the finite ones, so that a division by
  zero, an \<^verbatim>\<open>Infinity - Infinity\<close> or a comparison with \<^verbatim>\<open>NaN\<close> shows in the
  result instead of disappearing into a total function. Finite values are exact reals:
  the rounding of an arithmetic operation to a double, its overflow to \<^verbatim>\<open>Infinity\<close>, its
  underflow to 0 and the sign of zero are not modelled; only the conversion of typed text
  to a number rounds as the language does. The savings of the seven-step calculator, and
  of the six-step one in benchmark mode, are computed from the constants of their tables
  only, far from both ends of the range of a double. Where a result depends on an entered
  number, the statements below are conditions on the values the code itself compares and
  combines (the branch a guard takes, an intermediate result being finite or positive),
  not on the range of the entered number.
\<close>

datatype jsnum = NaN | PInf | NInf | Fin real

instantiation jsnum :: "{uminus, plus, minus, times, divide, ord}"
begin

fun uminus_jsnum :: "jsnum \<Rightarrow> jsnum" where
  "uminus_jsnum NaN = NaN"
| "uminus_jsnum PInf = NInf"
| "uminus_jsnum NInf = PInf"
| "uminus_jsnum (Fin a) = Fin (- a)"

fun plus_jsnum :: "jsnum \<Rightarrow> jsnum \<Rightarrow> jsnum" where
  "plus_jsnum (Fin a) (Fin b) = Fin (a + b)"
| "plus_jsnum NaN y = NaN"
| "plus_jsnum x NaN = NaN"
| "plus_jsnum PInf NInf = NaN"
| "plus_jsnum NInf PInf = NaN"
| "plus_jsnum PInf y = PInf"
| "plus_jsnum x PInf = PInf"
| "plus_jsnum NInf y = NInf"
| "plus_jsnum x NInf = NInf"

definition minus_jsnum :: "jsnum \<Rightarrow> jsnum \<Rightarrow> jsnum" where
  "minus_jsnum x y = x + (- y)"

fun times_jsnum :: "jsnum \<Rightarrow> jsnum \<Rightarrow> jsnum" where
  "times_jsnum (Fin a) (Fin b) = Fin (a * b)"
| "times_jsnum NaN y = NaN"
| "times_jsnum x NaN = NaN"
| "times_jsnum PInf PInf = PInf"
| "times_jsnum PInf NInf = NInf"
| "times_jsnum NInf PInf = NInf"
| "times_jsnum NInf NInf = PInf"
| "times_jsnum PInf (Fin b) = (if b = 0 then NaN else if 0 < b then PInf else NInf)"
| "times_jsnum NInf (Fin b) = (if b = 0 then NaN else if 0 < b then NInf else PInf)"
| "times_jsnum (Fin a) PInf = (if a = 0 then NaN else if 0 < a then PInf else NInf)"
| "times_jsnum (Fin a) NInf = (if a = 0 then NaN else if 0 < a then NInf else PInf)"

fun divide_jsnum :: "jsnum \<Rightarrow> jsnum \<Rightarrow> jsnum" where
  "divide_jsnum (Fin a) (Fin b) =
     (if b = 0 then (if a = 0 then NaN else if 0 < a then PInf else NInf)
      else Fin (a / b))"
| "divide_jsnum NaN y = NaN"
| "divide_jsnum x NaN = NaN"
| "divide_jsnum (Fin a) PInf = Fin 0"
| "divide_jsnum (Fin a) NInf = Fin 0"
| "divide_jsnum PInf (Fin b) = (if 0 \<le> b then PInf else NInf)"
| "divide_jsnum NInf (Fin b) = (if 0 \<le> b then NInf else PInf)"
| "divide_jsnum PInf PInf = NaN"
| "divide_jsnum PInf NInf = NaN"
| "divide_jsnum NInf PInf = NaN"
| "divide_jsnum NInf NInf = NaN"

fun less_jsnum :: "jsnum \<Rightarrow> jsnum \<Rightarrow> bool" where
  "less_jsnum (Fin a) (Fin b) = (a < b)"
| "less_jsnum NaN y = False"
| "less_jsnum x NaN = False"
| "less_jsnum NInf NInf = False"
| "less_jsnum NInf y = True"
| "less_jsnum x NInf = False"
| "less_jsnum PInf y = False"
| "less_jsnum x PInf = True"

fun less_eq_jsnum :: "jsnum \<Rightarrow> jsnum \<Rightarrow> bool" where
  "less_eq_jsnum (Fin a) (Fin b) = (a \<le> b)"
| "less_eq_jsnum NaN y = False"
| "less_eq_jsnum x NaN = False"
| "less_eq_jsnum NInf y = True"
| "less_eq_jsnum x PInf = True"
| "less_eq_jsnum PInf y = False"
| "less_eq_jsnum x NInf = False"

instance ..

end

instantiation jsnum :: inverse
begin

definition inverse_jsnum :: "jsnum \<Rightarrow> jsnum" where
  "inverse_jsnum x = divide (Fin 1) x"

instance ..

end

text \<open>\<^verbatim>\<open>x || 0\<close> on a number: the falsy numbers are \<^verbatim>\<open>NaN\<close> and zero.\<close>

definition or_zero :: "jsnum \<Rightarrow> jsnum" where
  "or_zero x = (if x = NaN \<or> x = Fin 0 then Fin 0 else x)"

text \<open>\<^verbatim>\<open>Number.isFinite\<close> and \<^verbatim>\<open>Number.isNaN\<close>.\<close>

fun isFinite :: "jsnum \<Rightarrow> bool" where
  "isFinite (Fin a) = True"
| "isFinite x = False"

fun isNaN :: "jsnum \<Rightarrow> bool" where
  "isNaN NaN = True"
| "isNaN x = False"

text \<open>
  \<^verbatim>\<open>m[k] ?? d\<close>: a property read gives \<^verbatim>\<open>undefined\<close> (here \<open>None\<close>) when the key
  is absent, and \<^verbatim>\<open>??\<close> then takes the right operand.
\<close>

fun nullish :: "'a option \<Rightarrow> 'a \<Rightarrow> 'a" where
  "nullish (Some v) d = v"
| "nullish None d = d"


section \<open>Tables shared by the banded calculators\<close>

definition WORKING_HOURS_PER_YEAR :: jsnum where
  "WORKING_HOURS_PER_YEAR = Fin 1760"

text \<open>
  \<^verbatim>\<open>ComplexityLevel = 1 | 2 | 3 | 4 | 5\<close>. Of each entry of \<^verbatim>\<open>COMPLEXITY_LEVELS\<close> only
  \<^verbatim>\<open>ahtMins\<close> enters the calculation; label, description and impact summary are display
  text and are left out.
\<close>

datatype ComplexityLevel = L1 | L2 | L3 | L4 | L5


fun COMPLEXITY_LEVELS_ahtMins :: "ComplexityLevel \<Rightarrow> jsnum" where
  "COMPLEXITY_LEVELS_ahtMins L1 = Fin 3.5"
| "COMPLEXITY_LEVELS_ahtMins L2 = Fin 5"
| "COMPLEXITY_LEVELS_ahtMins L3 = Fin 7"
| "COMPLEXITY_LEVELS_ahtMins L4 = Fin 10"
| "COMPLEXITY_LEVELS_ahtMins L5 = Fin 14"

datatype RevenueBand = Unknown | Lt50 | R50_250 | R250_1000 | Gt1000

text \<open>
  The \<^verbatim>\<open>switch (revenueBand)\<close> of both banded calculators: \<^verbatim>\<open>approxRevenue\<close> starts at 0
  and no case matches \<^verbatim>\<open>"unknown"\<close>.
\<close>

fun approxRevenue :: "RevenueBand \<Rightarrow> jsnum" where
  "approxRevenue Lt50 = Fin 25000000"
| "approxRevenue R50_250 = Fin 150000000"
| "approxRevenue R250_1000 = Fin 500000000"
| "approxRevenue Gt1000 = Fin 1500000000"
| "approxRevenue Unknown = Fin 0"

text \<open>\<^verbatim>\<open>ASSUMPTIONS\<close>, the same three entries in every calculator.\<close>

definition qaCoveragePct :: jsnum where
  "qaCoveragePct = Fin 5"

definition qaTimePerContactMins :: jsnum where
  "qaTimePerContactMins = Fin 6"

definition qaHourlyMultiplier :: jsnum where
  "qaHourlyMultiplier = Fin 1.2"


section \<open>The seven-step banded calculator\<close>

definition DEFAULT_COST_PER_AGENT :: jsnum where
  "DEFAULT_COST_PER_AGENT = Fin 45000"

datatype TeamSizeBand_b = T1_10 | T11_25 | T26_50 | T51_100 | T101_250 | T250plus

fun TEAM_SIZE_MAP_b :: "TeamSizeBand_b \<Rightarrow> jsnum option" where
  "TEAM_SIZE_MAP_b T1_10 = Some (Fin 8)"
| "TEAM_SIZE_MAP_b T11_25 = Some (Fin 20)"
| "TEAM_SIZE_MAP_b T26_50 = Some (Fin 40)"
| "TEAM_SIZE_MAP_b T51_100 = Some (Fin 80)"
| "TEAM_SIZE_MAP_b T101_250 = Some (Fin 150)"
| "TEAM_SIZE_MAP_b T250plus = Some (Fin 300)"

datatype ContactVolumeBand_b = V10_20 | V20_30 | V30_40 | V40_60 | V60plus

fun CONTACTS_PER_AGENT_MAP_b :: "ContactVolumeBand_b \<Rightarrow> jsnum option" where
  "CONTACTS_PER_AGENT_MAP_b V10_20 = Some (Fin 15)"
| "CONTACTS_PER_AGENT_MAP_b V20_30 = Some (Fin 25)"
| "CONTACTS_PER_AGENT_MAP_b V30_40 = Some (Fin 35)"
| "CONTACTS_PER_AGENT_MAP_b V40_60 = Some (Fin 50)"
| "CONTACTS_PER_AGENT_MAP_b V60plus = Some (Fin 70)"

datatype AiLevel = Low | Medium | High

record improvements =
  ahtReductionPct :: jsnum
  qaEfficiencyGainPct :: jsnum
  contactDeflectionPct :: jsnum

fun AI_IMPROVEMENTS_b :: "AiLevel \<Rightarrow> improvements" where
  "AI_IMPROVEMENTS_b Low =
     \<lparr>ahtReductionPct = Fin 15, qaEfficiencyGainPct = Fin 60, contactDeflectionPct = Fin 20\<rparr>"
| "AI_IMPROVEMENTS_b Medium =
     \<lparr>ahtReductionPct = Fin 12, qaEfficiencyGainPct = Fin 50, contactDeflectionPct = Fin 15\<rparr>"
| "AI_IMPROVEMENTS_b High =
     \<lparr>ahtReductionPct = Fin 8, qaEfficiencyGainPct = Fin 35, contactDeflectionPct = Fin 10\<rparr>"

text \<open>The component state that \<^verbatim>\<open>results\<close> depends on.\<close>

record answers_b =
  teamSizeBand_b :: TeamSizeBand_b
  contactVolumeBand_b :: ContactVolumeBand_b
  complexityLevel_b :: ComplexityLevel
  aiLevel_b :: AiLevel
  priorityAht_b :: bool
  priorityQa_b :: bool
  priorityDeflection_b :: bool
  priorityCx_b :: bool
  revenueBand_b :: RevenueBand
  includeRevenueImpact_b :: bool

text \<open>
  The body of \<^verbatim>\<open>results\<close>, one definition for each \<^verbatim>\<open>const\<close> or \<^verbatim>\<open>let\<close> of the source,
  in the source's order.
\<close>

definition numAgents_b :: "answers_b \<Rightarrow> jsnum" where
  "numAgents_b a = nullish (TEAM_SIZE_MAP_b (teamSizeBand_b a)) (the (TEAM_SIZE_MAP_b T26_50))"

definition annualCostPerAgent_b :: "answers_b \<Rightarrow> jsnum" where
  "annualCostPerAgent_b a = DEFAULT_COST_PER_AGENT"

definition contactsPerAgentPerDay_b :: "answers_b \<Rightarrow> jsnum" where
  "contactsPerAgentPerDay_b a =
     nullish (CONTACTS_PER_AGENT_MAP_b (contactVolumeBand_b a)) (the (CONTACTS_PER_AGENT_MAP_b V30_40))"

definition workingDaysPerMonth :: jsnum where
  "workingDaysPerMonth = Fin 21"

definition contactsPerMonth_b :: "answers_b \<Rightarrow> jsnum" where
  "contactsPerMonth_b a = numAgents_b a * contactsPerAgentPerDay_b a * workingDaysPerMonth"

definition contactsPerYear_b :: "answers_b \<Rightarrow> jsnum" where
  "contactsPerYear_b a = contactsPerMonth_b a * Fin 12"

definition ahtMins_b :: "answers_b \<Rightarrow> jsnum" where
  "ahtMins_b a = COMPLEXITY_LEVELS_ahtMins (complexityLevel_b a)"

definition costPerAgentHour_b :: "answers_b \<Rightarrow> jsnum" where
  "costPerAgentHour_b a =
     (if Fin 0 < WORKING_HOURS_PER_YEAR then annualCostPerAgent_b a / WORKING_HOURS_PER_YEAR
      else Fin 0)"

definition baselineHandlingHours_b :: "answers_b \<Rightarrow> jsnum" where
  "baselineHandlingHours_b a =
     contactsPerYear_b a * (if Fin 0 < ahtMins_b a then ahtMins_b a / Fin 60 else Fin 0)"

definition baselineHandlingCost_b :: "answers_b \<Rightarrow> jsnum" where
  "baselineHandlingCost_b a = baselineHandlingHours_b a * costPerAgentHour_b a"

definition costPerContactBaseline_b :: "answers_b \<Rightarrow> jsnum" where
  "costPerContactBaseline_b a =
     (if Fin 0 < contactsPerYear_b a then baselineHandlingCost_b a / contactsPerYear_b a
      else Fin 0)"

definition ahtFactor_b :: "answers_b \<Rightarrow> jsnum" where
  "ahtFactor_b a = (if priorityAht_b a then Fin 1 else Fin 0.3)"

definition qaFactor_b :: "answers_b \<Rightarrow> jsnum" where
  "qaFactor_b a = (if priorityQa_b a then Fin 1 else Fin 0)"

definition deflectionFactor_b :: "answers_b \<Rightarrow> jsnum" where
  "deflectionFactor_b a = (if priorityDeflection_b a then Fin 1 else Fin 0)"

definition ahtReductionPct_b :: "answers_b \<Rightarrow> jsnum" where
  "ahtReductionPct_b a = ahtReductionPct (AI_IMPROVEMENTS_b (aiLevel_b a)) * ahtFactor_b a"

definition qaEfficiencyGainPct_b :: "answers_b \<Rightarrow> jsnum" where
  "qaEfficiencyGainPct_b a = qaEfficiencyGainPct (AI_IMPROVEMENTS_b (aiLevel_b a)) * qaFactor_b a"

definition contactDeflectionPct_b :: "answers_b \<Rightarrow> jsnum" where
  "contactDeflectionPct_b a =
     contactDeflectionPct (AI_IMPROVEMENTS_b (aiLevel_b a)) * deflectionFactor_b a"

text \<open>
  \<^verbatim>\<open>annualRevenueInfluenced\<close> and \<^verbatim>\<open>revenueProtectionPct\<close> are declared as 0 and assigned
  only inside \<^verbatim>\<open>if (includeRevenueImpact && revenueBand !== "unknown" && priorityCx)\<close>.
\<close>

definition revenueGate_b :: "answers_b \<Rightarrow> bool" where
  "revenueGate_b a =
     (includeRevenueImpact_b a \<and> revenueBand_b a \<noteq> Unknown \<and> priorityCx_b a)"

definition annualRevenueInfluenced_b :: "answers_b \<Rightarrow> jsnum" where
  "annualRevenueInfluenced_b a =
     (if revenueGate_b a then approxRevenue (revenueBand_b a) * Fin 0.3 else Fin 0)"

definition revenueProtectionPct_b :: "answers_b \<Rightarrow> jsnum" where
  "revenueProtectionPct_b a = (if revenueGate_b a then Fin 1.0 else Fin 0)"

text \<open>
  The \<^verbatim>\<open>if\<close>/\<^verbatim>\<open>else if\<close> chain on \<^verbatim>\<open>numAgents\<close>; its last \<^verbatim>\<open>else\<close> assigns too, so the
  initial 150000 never survives.
\<close>

definition edgetierAnnualCost_b :: "answers_b \<Rightarrow> jsnum" where
  "edgetierAnnualCost_b a =
     (if numAgents_b a \<le> Fin 25 then Fin 80000
      else if numAgents_b a \<le> Fin 50 then Fin 120000
      else if numAgents_b a \<le> Fin 100 then Fin 180000
      else if numAgents_b a \<le> Fin 250 then Fin 250000
      else Fin 350000)"

definition newAhtMins_b :: "answers_b \<Rightarrow> jsnum" where
  "newAhtMins_b a = ahtMins_b a * (Fin 1 - or_zero (ahtReductionPct_b a) / Fin 100)"

definition newHandlingHours_b :: "answers_b \<Rightarrow> jsnum" where
  "newHandlingHours_b a =
     contactsPerYear_b a * (if Fin 0 < newAhtMins_b a then newAhtMins_b a / Fin 60 else Fin 0)"

definition newHandlingCost_b :: "answers_b \<Rightarrow> jsnum" where
  "newHandlingCost_b a = newHandlingHours_b a * costPerAgentHour_b a"

definition savingsAht_b :: "answers_b \<Rightarrow> jsnum" where
  "savingsAht_b a = baselineHandlingCost_b a - newHandlingCost_b a"

definition hoursSavedAht_b :: "answers_b \<Rightarrow> jsnum" where
  "hoursSavedAht_b a = baselineHandlingHours_b a - newHandlingHours_b a"

definition qaHourlyCost_b :: "answers_b \<Rightarrow> jsnum" where
  "qaHourlyCost_b a = costPerAgentHour_b a * qaHourlyMultiplier"

definition baselineQaHours_b :: "answers_b \<Rightarrow> jsnum" where
  "baselineQaHours_b a =
     contactsPerYear_b a * (qaCoveragePct / Fin 100) * (qaTimePerContactMins / Fin 60)"

definition baselineQaCost_b :: "answers_b \<Rightarrow> jsnum" where
  "baselineQaCost_b a = baselineQaHours_b a * qaHourlyCost_b a"

definition newQaHours_b :: "answers_b \<Rightarrow> jsnum" where
  "newQaHours_b a = baselineQaHours_b a * (Fin 1 - or_zero (qaEfficiencyGainPct_b a) / Fin 100)"

definition newQaCost_b :: "answers_b \<Rightarrow> jsnum" where
  "newQaCost_b a = newQaHours_b a * qaHourlyCost_b a"

definition savingsQa_b :: "answers_b \<Rightarrow> jsnum" where
  "savingsQa_b a = baselineQaCost_b a - newQaCost_b a"

definition hoursSavedQa_b :: "answers_b \<Rightarrow> jsnum" where
  "hoursSavedQa_b a = baselineQaHours_b a - newQaHours_b a"

definition contactsAvoidedPerYear_b :: "answers_b \<Rightarrow> jsnum" where
  "contactsAvoidedPerYear_b a =
     contactsPerYear_b a * (or_zero (contactDeflectionPct_b a) / Fin 100)"

definition savingsDeflection_b :: "answers_b \<Rightarrow> jsnum" where
  "savingsDeflection_b a = contactsAvoidedPerYear_b a * costPerContactBaseline_b a"

definition revenueProtected_b :: "answers_b \<Rightarrow> jsnum" where
  "revenueProtected_b a =
     annualRevenueInfluenced_b a * (or_zero (revenueProtectionPct_b a) / Fin 100)"

definition totalAnnualBenefit_b :: "answers_b \<Rightarrow> jsnum" where
  "totalAnnualBenefit_b a =
     or_zero (savingsAht_b a) + or_zero (savingsQa_b a) + or_zero (savingsDeflection_b a)
       + or_zero (revenueProtected_b a)"

definition netGain_b :: "answers_b \<Rightarrow> jsnum" where
  "netGain_b a = totalAnnualBenefit_b a - or_zero (edgetierAnnualCost_b a)"

definition roiPct_b :: "answers_b \<Rightarrow> jsnum" where
  "roiPct_b a =
     (if Fin 0 < edgetierAnnualCost_b a then (netGain_b a / edgetierAnnualCost_b a) * Fin 100
      else Fin 0)"

definition totalHoursSaved_b :: "answers_b \<Rightarrow> jsnum" where
  "totalHoursSaved_b a = or_zero (hoursSavedAht_b a) + or_zero (hoursSavedQa_b a)"

definition monthlyBenefit_b :: "answers_b \<Rightarrow> jsnum" where
  "monthlyBenefit_b a =
     (if Fin 0 < totalAnnualBenefit_b a then totalAnnualBenefit_b a / Fin 12 else Fin 0)"

definition paybackMonths_b :: "answers_b \<Rightarrow> jsnum" where
  "paybackMonths_b a =
     (if Fin 0 < monthlyBenefit_b a then edgetierAnnualCost_b a / monthlyBenefit_b a else Fin 0)"

record result_b =
  res_numAgents_b :: jsnum
  res_contactsPerYear_b :: jsnum
  res_ahtMins_b :: jsnum
  res_costPerContactBaseline_b :: jsnum
  res_contactsAvoidedPerYear_b :: jsnum
  res_savingsAht_b :: jsnum
  res_savingsQa_b :: jsnum
  res_savingsDeflection_b :: jsnum
  res_revenueProtected_b :: jsnum
  res_totalAnnualBenefit_b :: jsnum
  res_netGain_b :: jsnum
  res_roiPct_b :: jsnum
  res_totalHoursSaved_b :: jsnum
  res_paybackMonths_b :: jsnum
  res_edgetierAnnualCost_b :: jsnum

definition results_b :: "answers_b \<Rightarrow> result_b" where
  "results_b a =
     \<lparr>res_numAgents_b = numAgents_b a,
      res_contactsPerYear_b = contactsPerYear_b a,
      res_ahtMins_b = ahtMins_b a,
      res_costPerContactBaseline_b = costPerContactBaseline_b a,
      res_contactsAvoidedPerYear_b = contactsAvoidedPerYear_b a,
      res_savingsAht_b = savingsAht_b a,
      res_savingsQa_b = savingsQa_b a,
      res_savingsDeflection_b = savingsDeflection_b a,
      res_revenueProtected_b = revenueProtected_b a,
      res_totalAnnualBenefit_b = totalAnnualBenefit_b a,
      res_netGain_b = netGain_b a,
      res_roiPct_b = roiPct_b a,
      res_totalHoursSaved_b = totalHoursSaved_b a,
      res_paybackMonths_b = paybackMonths_b a,
      res_edgetierAnnualCost_b = edgetierAnnualCost_b a\<rparr>"

text \<open>The state the component starts in, which is the scenario of the specification.\<close>

definition scenario_b :: answers_b where
  "scenario_b =
     \<lparr>teamSizeBand_b = T26_50, contactVolumeBand_b = V30_40, complexityLevel_b = L3,
      aiLevel_b = Medium, priorityAht_b = True, priorityQa_b = True,
      priorityDeflection_b = True, priorityCx_b = False, revenueBand_b = Unknown,
      includeRevenueImpact_b = False\<rparr>"


section \<open>The three-step calculator with direct numeric entry\<close>

text \<open>
  The second component of the same file. Its \<^verbatim>\<open>ASSUMPTIONS\<close> object carries four more
  entries: the percentage applied when the matching improvement card is ticked.
\<close>

definition ASSUMPTIONS_ahtReductionPct_d :: jsnum where
  "ASSUMPTIONS_ahtReductionPct_d = Fin 12"

definition ASSUMPTIONS_qaEfficiencyGainPct_d :: jsnum where
  "ASSUMPTIONS_qaEfficiencyGainPct_d = Fin 50"

definition ASSUMPTIONS_contactDeflectionPct_d :: jsnum where
  "ASSUMPTIONS_contactDeflectionPct_d = Fin 15"

definition ASSUMPTIONS_revenueProtectionPct_d :: jsnum where
  "ASSUMPTIONS_revenueProtectionPct_d = Fin 1"

record answers_d =
  numAgents_d :: jsnum
  contactsPerMonth_d :: jsnum
  ahtMins_d :: jsnum
  annualCostPerAgent_d :: jsnum
  reduceAht_d :: bool
  reduceQa_d :: bool
  reduceContacts_d :: bool
  improveCx_d :: bool
  edgetierAnnualCost_d :: jsnum
  annualRevenueInfluenced_d :: jsnum

definition contactsPerYear_d :: "answers_d \<Rightarrow> jsnum" where
  "contactsPerYear_d a = contactsPerMonth_d a * Fin 12"

definition costPerAgentHour_d :: "answers_d \<Rightarrow> jsnum" where
  "costPerAgentHour_d a =
     (if Fin 0 < WORKING_HOURS_PER_YEAR then annualCostPerAgent_d a / WORKING_HOURS_PER_YEAR
      else Fin 0)"

definition baselineHandlingHours_d :: "answers_d \<Rightarrow> jsnum" where
  "baselineHandlingHours_d a =
     contactsPerYear_d a * (if Fin 0 < ahtMins_d a then ahtMins_d a / Fin 60 else Fin 0)"

definition baselineHandlingCost_d :: "answers_d \<Rightarrow> jsnum" where
  "baselineHandlingCost_d a = baselineHandlingHours_d a * costPerAgentHour_d a"

definition costPerContactBaseline_d :: "answers_d \<Rightarrow> jsnum" where
  "costPerContactBaseline_d a =
     (if Fin 0 < contactsPerYear_d a then baselineHandlingCost_d a / contactsPerYear_d a
      else Fin 0)"

definition ahtReductionPct_d :: "answers_d \<Rightarrow> jsnum" where
  "ahtReductionPct_d a = (if reduceAht_d a then ASSUMPTIONS_ahtReductionPct_d else Fin 0)"

definition qaEfficiencyGainPct_d :: "answers_d \<Rightarrow> jsnum" where
  "qaEfficiencyGainPct_d a = (if reduceQa_d a then ASSUMPTIONS_qaEfficiencyGainPct_d else Fin 0)"

definition contactDeflectionPct_d :: "answers_d \<Rightarrow> jsnum" where
  "contactDeflectionPct_d a =
     (if reduceContacts_d a then ASSUMPTIONS_contactDeflectionPct_d else Fin 0)"

definition revenueProtectionPct_d :: "answers_d \<Rightarrow> jsnum" where
  "revenueProtectionPct_d a =
     (if improveCx_d a then ASSUMPTIONS_revenueProtectionPct_d else Fin 0)"

definition newAhtMins_d :: "answers_d \<Rightarrow> jsnum" where
  "newAhtMins_d a = ahtMins_d a * (Fin 1 - ahtReductionPct_d a / Fin 100)"

definition newHandlingHours_d :: "answers_d \<Rightarrow> jsnum" where
  "newHandlingHours_d a =
     contactsPerYear_d a * (if Fin 0 < newAhtMins_d a then newAhtMins_d a / Fin 60 else Fin 0)"

definition newHandlingCost_d :: "answers_d \<Rightarrow> jsnum" where
  "newHandlingCost_d a = newHandlingHours_d a * costPerAgentHour_d a"

definition savingsAht_d :: "answers_d \<Rightarrow> jsnum" where
  "savingsAht_d a = baselineHandlingCost_d a - newHandlingCost_d a"

definition hoursSavedAht_d :: "answers_d \<Rightarrow> jsnum" where
  "hoursSavedAht_d a = baselineHandlingHours_d a - newHandlingHours_d a"

definition qaHourlyCost_d :: "answers_d \<Rightarrow> jsnum" where
  "qaHourlyCost_d a = costPerAgentHour_d a * qaHourlyMultiplier"

definition baselineQaHours_d :: "answers_d \<Rightarrow> jsnum" where
  "baselineQaHours_d a =
     contactsPerYear_d a * (qaCoveragePct / Fin 100) * (qaTimePerContactMins / Fin 60)"

definition baselineQaCost_d :: "answers_d \<Rightarrow> jsnum" where
  "baselineQaCost_d a = baselineQaHours_d a * qaHourlyCost_d a"

definition newQaHours_d :: "answers_d \<Rightarrow> jsnum" where
  "newQaHours_d a = baselineQaHours_d a * (Fin 1 - qaEfficiencyGainPct_d a / Fin 100)"

definition newQaCost_d :: "answers_d \<Rightarrow> jsnum" where
  "newQaCost_d a = newQaHours_d a * qaHourlyCost_d a"

definition savingsQa_d :: "answers_d \<Rightarrow> jsnum" where
  "savingsQa_d a = baselineQaCost_d a - newQaCost_d a"

definition hoursSavedQa_d :: "answers_d \<Rightarrow> jsnum" where
  "hoursSavedQa_d a = baselineQaHours_d a - newQaHours_d a"

definition contactsAvoidedPerYear_d :: "answers_d \<Rightarrow> jsnum" where
  "contactsAvoidedPerYear_d a = contactsPerYear_d a * (contactDeflectionPct_d a / Fin 100)"

definition savingsDeflection_d :: "answers_d \<Rightarrow> jsnum" where
  "savingsDeflection_d a = contactsAvoidedPerYear_d a * costPerContactBaseline_d a"

definition revenueProtected_d :: "answers_d \<Rightarrow> jsnum" where
  "revenueProtected_d a = annualRevenueInfluenced_d a * (revenueProtectionPct_d a / Fin 100)"

definition totalAnnualBenefit_d :: "answers_d \<Rightarrow> jsnum" where
  "totalAnnualBenefit_d a =
     or_zero (savingsAht_d a) + or_zero (savingsQa_d a) + or_zero (savingsDeflection_d a)
       + or_zero (revenueProtected_d a)"

definition netGain_d :: "answers_d \<Rightarrow> jsnum" where
  "netGain_d a = totalAnnualBenefit_d a - or_zero (edgetierAnnualCost_d a)"

definition roiPct_d :: "answers_d \<Rightarrow> jsnum" where
  "roiPct_d a =
     (if Fin 0 < edgetierAnnualCost_d a then (netGain_d a / edgetierAnnualCost_d a) * Fin 100
      else Fin 0)"

definition totalHoursSaved_d :: "answers_d \<Rightarrow> jsnum" where
  "totalHoursSaved_d a = or_zero (hoursSavedAht_d a) + or_zero (hoursSavedQa_d a)"

definition monthlyBenefit_d :: "answers_d \<Rightarrow> jsnum" where
  "monthlyBenefit_d a =
     (if Fin 0 < totalAnnualBenefit_d a then totalAnnualBenefit_d a / Fin 12 else Fin 0)"

definition paybackMonths_d :: "answers_d \<Rightarrow> jsnum" where
  "paybackMonths_d a =
     (if Fin 0 < monthlyBenefit_d a then edgetierAnnualCost_d a / monthlyBenefit_d a else Fin 0)"

record result_d =
  res_numAgents_d :: jsnum
  res_contactsPerYear_d :: jsnum
  res_costPerContactBaseline_d :: jsnum
  res_contactsAvoidedPerYear_d :: jsnum
  res_savingsAht_d :: jsnum
  res_savingsQa_d :: jsnum
  res_savingsDeflection_d :: jsnum
  res_revenueProtected_d :: jsnum
  res_totalAnnualBenefit_d :: jsnum
  res_netGain_d :: jsnum
  res_roiPct_d :: jsnum
  res_totalHoursSaved_d :: jsnum
  res_paybackMonths_d :: jsnum

definition results_d :: "answers_d \<Rightarrow> result_d" where
  "results_d a =
     \<lparr>res_numAgents_d = numAgents_d a,
      res_contactsPerYear_d = contactsPerYear_d a,
      res_costPerContactBaseline_d = costPerContactBaseline_d a,
      res_contactsAvoidedPerYear_d = contactsAvoidedPerYear_d a,
      res_savingsAht_d = savingsAht_d a,
      res_savingsQa_d = savingsQa_d a,
      res_savingsDeflection_d = savingsDeflection_d a,
      res_revenueProtected_d = revenueProtected_d a,
      res_totalAnnualBenefit_d = totalAnnualBenefit_d a,
      res_netGain_d = netGain_d a,
      res_roiPct_d = roiPct_d a,
      res_totalHoursSaved_d = totalHoursSaved_d a,
      res_paybackMonths_d = paybackMonths_d a\<rparr>"

text \<open>\<^verbatim>\<open>Number.isFinite\<close> on every field of the returned object.\<close>

definition allFinite_d :: "result_d \<Rightarrow> bool" where
  "allFinite_d r =
     (isFinite (res_numAgents_d r) \<and> isFinite (res_contactsPerYear_d r)
      \<and> isFinite (res_costPerContactBaseline_d r) \<and> isFinite (res_contactsAvoidedPerYear_d r)
      \<and> isFinite (res_savingsAht_d r) \<and> isFinite (res_savingsQa_d r)
      \<and> isFinite (res_savingsDeflection_d r) \<and> isFinite (res_revenueProtected_d r)
      \<and> isFinite (res_totalAnnualBenefit_d r) \<and> isFinite (res_netGain_d r)
      \<and> isFinite (res_roiPct_d r) \<and> isFinite (res_totalHoursSaved_d r)
      \<and> isFinite (res_paybackMonths_d r))"

text \<open>The state the component starts in.\<close>

definition initial_d :: answers_d where
  "initial_d =
     \<lparr>numAgents_d = Fin 80, contactsPerMonth_d = Fin 60000, ahtMins_d = Fin 7,
      annualCostPerAgent_d = Fin 45000, reduceAht_d = True, reduceQa_d = True,
      reduceContacts_d = True, improveCx_d = False, edgetierAnnualCost_d = Fin 180000,
      annualRevenueInfluenced_d = Fin 0\<rparr>"


section \<open>The six-step calculator with region, revenue impact and rollout\<close>

datatype TeamSizeBand_r = TR10_25 | TR26_50 | TR51_100 | TR101_250 | TR250plus

fun TEAM_SIZE_MAP_r :: "TeamSizeBand_r \<Rightarrow> jsnum option" where
  "TEAM_SIZE_MAP_r TR10_25 = Some (Fin 20)"
| "TEAM_SIZE_MAP_r TR26_50 = Some (Fin 40)"
| "TEAM_SIZE_MAP_r TR51_100 = Some (Fin 80)"
| "TEAM_SIZE_MAP_r TR101_250 = Some (Fin 150)"
| "TEAM_SIZE_MAP_r TR250plus = Some (Fin 300)"

datatype RegionBand = UK_IE_NORDICS_ANZ | SOUTHERN_EUROPE | EASTERN_EUROPE | APAC_INDIA_PH

fun REGION_COST_MAP :: "RegionBand \<Rightarrow> jsnum option" where
  "REGION_COST_MAP UK_IE_NORDICS_ANZ = Some (Fin 50000)"
| "REGION_COST_MAP SOUTHERN_EUROPE = Some (Fin 42000)"
| "REGION_COST_MAP EASTERN_EUROPE = Some (Fin 30000)"
| "REGION_COST_MAP APAC_INDIA_PH = Some (Fin 25000)"

datatype ContactVolumeBand_r = VR20_30 | VR30_40 | VR40_60 | VR60plus

fun CONTACTS_PER_AGENT_MAP_r :: "ContactVolumeBand_r \<Rightarrow> jsnum option" where
  "CONTACTS_PER_AGENT_MAP_r VR20_30 = Some (Fin 25)"
| "CONTACTS_PER_AGENT_MAP_r VR30_40 = Some (Fin 35)"
| "CONTACTS_PER_AGENT_MAP_r VR40_60 = Some (Fin 50)"
| "CONTACTS_PER_AGENT_MAP_r VR60plus = Some (Fin 70)"

datatype AiMaturity = LowMaturity | Moderate | Advanced

fun AI_IMPROVEMENTS_r :: "AiMaturity \<Rightarrow> improvements" where
  "AI_IMPROVEMENTS_r LowMaturity =
     \<lparr>ahtReductionPct = Fin 15, qaEfficiencyGainPct = Fin 60, contactDeflectionPct = Fin 20\<rparr>"
| "AI_IMPROVEMENTS_r Moderate =
     \<lparr>ahtReductionPct = Fin 12, qaEfficiencyGainPct = Fin 50, contactDeflectionPct = Fin 15\<rparr>"
| "AI_IMPROVEMENTS_r Advanced =
     \<lparr>ahtReductionPct = Fin 8, qaEfficiencyGainPct = Fin 35, contactDeflectionPct = Fin 10\<rparr>"

datatype RevenueImpact = Cost | Retention | Upsell

datatype RolloutScope = Single | Few | Multi

datatype CostMode = Known | Benchmark

datatype InvestmentMode = Auto | Custom

record answers_r =
  teamSizeBand_r :: TeamSizeBand_r
  costMode_r :: CostMode
  knownCostPerAgent_r :: jsnum
  regionBand_r :: RegionBand
  contactVolumeBand_r :: ContactVolumeBand_r
  complexityLevel_r :: ComplexityLevel
  aiMaturity_r :: AiMaturity
  priorityAht_r :: bool
  priorityQa_r :: bool
  priorityDeflection_r :: bool
  priorityCx_r :: bool
  revenueBand_r :: RevenueBand
  revenueImpact_r :: RevenueImpact
  skipRevenueImpact_r :: bool
  rolloutScope_r :: RolloutScope
  investmentMode_r :: InvestmentMode
  customEdgetierCost_r :: jsnum

definition numAgents_r :: "answers_r \<Rightarrow> jsnum" where
  "numAgents_r a = nullish (TEAM_SIZE_MAP_r (teamSizeBand_r a)) (the (TEAM_SIZE_MAP_r TR51_100))"

definition annualCostPerAgent_r :: "answers_r \<Rightarrow> jsnum" where
  "annualCostPerAgent_r a =
     (if costMode_r a = Known \<and> Fin 0 < knownCostPerAgent_r a then knownCostPerAgent_r a
      else nullish (REGION_COST_MAP (regionBand_r a)) (the (REGION_COST_MAP UK_IE_NORDICS_ANZ)))"

definition contactsPerAgentPerDay_r :: "answers_r \<Rightarrow> jsnum" where
  "contactsPerAgentPerDay_r a =
     nullish (CONTACTS_PER_AGENT_MAP_r (contactVolumeBand_r a)) (the (CONTACTS_PER_AGENT_MAP_r VR40_60))"

definition contactsPerMonth_r :: "answers_r \<Rightarrow> jsnum" where
  "contactsPerMonth_r a = numAgents_r a * contactsPerAgentPerDay_r a * workingDaysPerMonth"

definition contactsPerYear_r :: "answers_r \<Rightarrow> jsnum" where
  "contactsPerYear_r a = contactsPerMonth_r a * Fin 12"

definition ahtMins_r :: "answers_r \<Rightarrow> jsnum" where
  "ahtMins_r a = COMPLEXITY_LEVELS_ahtMins (complexityLevel_r a)"

definition costPerAgentHour_r :: "answers_r \<Rightarrow> jsnum" where
  "costPerAgentHour_r a =
     (if Fin 0 < WORKING_HOURS_PER_YEAR then annualCostPerAgent_r a / WORKING_HOURS_PER_YEAR
      else Fin 0)"

definition baselineHandlingHours_r :: "answers_r \<Rightarrow> jsnum" where
  "baselineHandlingHours_r a =
     contactsPerYear_r a * (if Fin 0 < ahtMins_r a then ahtMins_r a / Fin 60 else Fin 0)"

definition baselineHandlingCost_r :: "answers_r \<Rightarrow> jsnum" where
  "baselineHandlingCost_r a = baselineHandlingHours_r a * costPerAgentHour_r a"

definition costPerContactBaseline_r :: "answers_r \<Rightarrow> jsnum" where
  "costPerContactBaseline_r a =
     (if Fin 0 < contactsPerYear_r a then baselineHandlingCost_r a / contactsPerYear_r a
      else Fin 0)"

definition ahtFactor_r :: "answers_r \<Rightarrow> jsnum" where
  "ahtFactor_r a = (if priorityAht_r a then Fin 1 else Fin 0.3)"

definition qaFactor_r :: "answers_r \<Rightarrow> jsnum" where
  "qaFactor_r a = (if priorityQa_r a then Fin 1 else Fin 0)"

definition deflectionFactor_r :: "answers_r \<Rightarrow> jsnum" where
  "deflectionFactor_r a = (if priorityDeflection_r a then Fin 1 else Fin 0)"

definition ahtReductionPct_r :: "answers_r \<Rightarrow> jsnum" where
  "ahtReductionPct_r a = ahtReductionPct (AI_IMPROVEMENTS_r (aiMaturity_r a)) * ahtFactor_r a"

definition qaEfficiencyGainPct_r :: "answers_r \<Rightarrow> jsnum" where
  "qaEfficiencyGainPct_r a =
     qaEfficiencyGainPct (AI_IMPROVEMENTS_r (aiMaturity_r a)) * qaFactor_r a"

definition contactDeflectionPct_r :: "answers_r \<Rightarrow> jsnum" where
  "contactDeflectionPct_r a =
     contactDeflectionPct (AI_IMPROVEMENTS_r (aiMaturity_r a)) * deflectionFactor_r a"

definition revenueGate_r :: "answers_r \<Rightarrow> bool" where
  "revenueGate_r a =
     (\<not> skipRevenueImpact_r a \<and> revenueBand_r a \<noteq> Unknown \<and> priorityCx_r a)"

definition annualRevenueInfluenced_r :: "answers_r \<Rightarrow> jsnum" where
  "annualRevenueInfluenced_r a =
     (if revenueGate_r a then approxRevenue (revenueBand_r a) * Fin 0.3 else Fin 0)"

text \<open>Three \<^verbatim>\<open>if\<close> statements in a row, each overwriting the 0 that \<^verbatim>\<open>baseRevenuePct\<close> starts with.\<close>

definition baseRevenuePct_r :: "answers_r \<Rightarrow> jsnum" where
  "baseRevenuePct_r a =
     (let p0 = Fin 0;
          p1 = (if revenueImpact_r a = Cost then Fin 0.5 else p0);
          p2 = (if revenueImpact_r a = Retention then Fin 1.0 else p1);
          p3 = (if revenueImpact_r a = Upsell then Fin 1.5 else p2)
      in p3)"

definition revenueProtectionPct_r :: "answers_r \<Rightarrow> jsnum" where
  "revenueProtectionPct_r a = (if revenueGate_r a then baseRevenuePct_r a else Fin 0)"

definition baseLicense_r :: "answers_r \<Rightarrow> jsnum" where
  "baseLicense_r a =
     (if numAgents_r a \<le> Fin 50 then Fin 80000
      else if numAgents_r a \<le> Fin 100 then Fin 150000
      else if numAgents_r a \<le> Fin 250 then Fin 250000
      else Fin 350000)"

definition rolloutMultiplier_r :: "answers_r \<Rightarrow> jsnum" where
  "rolloutMultiplier_r a =
     (let m0 = Fin 1;
          m1 = (if rolloutScope_r a = Few then Fin 1.8 else m0);
          m2 = (if rolloutScope_r a = Multi then Fin 2.5 else m1)
      in m2)"

text \<open>
  \<^verbatim>\<open>let edgetierAnnualCost = customEdgetierCost\<close>, overwritten inside
  \<^verbatim>\<open>if (investmentMode === "auto")\<close>.
\<close>

definition edgetierAnnualCost_r :: "answers_r \<Rightarrow> jsnum" where
  "edgetierAnnualCost_r a =
     (if investmentMode_r a = Auto then baseLicense_r a * rolloutMultiplier_r a
      else customEdgetierCost_r a)"

definition newAhtMins_r :: "answers_r \<Rightarrow> jsnum" where
  "newAhtMins_r a = ahtMins_r a * (Fin 1 - or_zero (ahtReductionPct_r a) / Fin 100)"

definition newHandlingHours_r :: "answers_r \<Rightarrow> jsnum" where
  "newHandlingHours_r a =
     contactsPerYear_r a * (if Fin 0 < newAhtMins_r a then newAhtMins_r a / Fin 60 else Fin 0)"

definition newHandlingCost_r :: "answers_r \<Rightarrow> jsnum" where
  "newHandlingCost_r a = newHandlingHours_r a * costPerAgentHour_r a"

definition savingsAht_r :: "answers_r \<Rightarrow> jsnum" where
  "savingsAht_r a = baselineHandlingCost_r a - newHandlingCost_r a"

definition hoursSavedAht_r :: "answers_r \<Rightarrow> jsnum" where
  "hoursSavedAht_r a = baselineHandlingHours_r a - newHandlingHours_r a"

definition qaHourlyCost_r :: "answers_r \<Rightarrow> jsnum" where
  "qaHourlyCost_r a = costPerAgentHour_r a * qaHourlyMultiplier"

definition baselineQaHours_r :: "answers_r \<Rightarrow> jsnum" where
  "baselineQaHours_r a =
     contactsPerYear_r a * (qaCoveragePct / Fin 100) * (qaTimePerContactMins / Fin 60)"

definition baselineQaCost_r :: "answers_r \<Rightarrow> jsnum" where
  "baselineQaCost_r a = baselineQaHours_r a * qaHourlyCost_r a"

definition newQaHours_r :: "answers_r \<Rightarrow> jsnum" where
  "newQaHours_r a = baselineQaHours_r a * (Fin 1 - or_zero (qaEfficiencyGainPct_r a) / Fin 100)"

definition newQaCost_r :: "answers_r \<Rightarrow> jsnum" where
  "newQaCost_r a = newQaHours_r a * qaHourlyCost_r a"

definition savingsQa_r :: "answers_r \<Rightarrow> jsnum" where
  "savingsQa_r a = baselineQaCost_r a - newQaCost_r a"

definition hoursSavedQa_r :: "answers_r \<Rightarrow> jsnum" where
  "hoursSavedQa_r a = baselineQaHours_r a - newQaHours_r a"

definition contactsAvoidedPerYear_r :: "answers_r \<Rightarrow> jsnum" where
  "contactsAvoidedPerYear_r a =
     contactsPerYear_r a * (or_zero (contactDeflectionPct_r a) / Fin 100)"

definition savingsDeflection_r :: "answers_r \<Rightarrow> jsnum" where
  "savingsDeflection_r a = contactsAvoidedPerYear_r a * costPerContactBaseline_r a"

definition revenueProtected_r :: "answers_r \<Rightarrow> jsnum" where
  "revenueProtected_r a =
     annualRevenueInfluenced_r a * (or_zero (revenueProtectionPct_r a) / Fin 100)"

definition totalAnnualBenefit_r :: "answers_r \<Rightarrow> jsnum" where
  "totalAnnualBenefit_r a =
     or_zero (savingsAht_r a) + or_zero (savingsQa_r a) + or_zero (savingsDeflection_r a)
       + or_zero (revenueProtected_r a)"

definition netGain_r :: "answers_r \<Rightarrow> jsnum" where
  "netGain_r a = totalAnnualBenefit_r a - or_zero (edgetierAnnualCost_r a)"

definition roiPct_r :: "answers_r \<Rightarrow> jsnum" where
  "roiPct_r a =
     (if Fin 0 < edgetierAnnualCost_r a then (netGain_r a / edgetierAnnualCost_r a) * Fin 100
      else Fin 0)"

definition totalHoursSaved_r :: "answers_r \<Rightarrow> jsnum" where
  "totalHoursSaved_r a = or_zero (hoursSavedAht_r a) + or_zero (hoursSavedQa_r a)"

definition monthlyBenefit_r :: "answers_r \<Rightarrow> jsnum" where
  "monthlyBenefit_r a =
     (if Fin 0 < totalAnnualBenefit_r a then totalAnnualBenefit_r a / Fin 12 else Fin 0)"

definition paybackMonths_r :: "answers_r \<Rightarrow> jsnum" where
  "paybackMonths_r a =
     (if Fin 0 < monthlyBenefit_r a then edgetierAnnualCost_r a / monthlyBenefit_r a else Fin 0)"

record result_r =
  res_numAgents_r :: jsnum
  res_annualCostPerAgent_r :: jsnum
  res_contactsPerMonth_r :: jsnum
  res_contactsPerYear_r :: jsnum
  res_ahtMins_r :: jsnum
  res_costPerContactBaseline_r :: jsnum
  res_contactsAvoidedPerYear_r :: jsnum
  res_savingsAht_r :: jsnum
  res_savingsQa_r :: jsnum
  res_savingsDeflection_r :: jsnum
  res_revenueProtected_r :: jsnum
  res_totalAnnualBenefit_r :: jsnum
  res_netGain_r :: jsnum
  res_roiPct_r :: jsnum
  res_totalHoursSaved_r :: jsnum
  res_paybackMonths_r :: jsnum
  res_edgetierAnnualCost_r :: jsnum

definition results_r :: "answers_r \<Rightarrow> result_r" where
  "results_r a =
     \<lparr>res_numAgents_r = numAgents_r a,
      res_annualCostPerAgent_r = annualCostPerAgent_r a,
      res_contactsPerMonth_r = contactsPerMonth_r a,
      res_contactsPerYear_r = contactsPerYear_r a,
      res_ahtMins_r = ahtMins_r a,
      res_costPerContactBaseline_r = costPerContactBaseline_r a,
      res_contactsAvoidedPerYear_r = contactsAvoidedPerYear_r a,
      res_savingsAht_r = savingsAht_r a,
      res_savingsQa_r = savingsQa_r a,
      res_savingsDeflection_r = savingsDeflection_r a,
      res_revenueProtected_r = revenueProtected_r a,
      res_totalAnnualBenefit_r = totalAnnualBenefit_r a,
      res_netGain_r = netGain_r a,
      res_roiPct_r = roiPct_r a,
      res_totalHoursSaved_r = totalHoursSaved_r a,
      res_paybackMonths_r = paybackMonths_r a,
      res_edgetierAnnualCost_r = edgetierAnnualCost_r a\<rparr>"

text \<open>The state the component starts in.\<close>

definition initial_r :: answers_r where
  "initial_r =
     \<lparr>teamSizeBand_r = TR51_100, costMode_r = Benchmark, knownCostPerAgent_r = Fin 45000,
      regionBand_r = UK_IE_NORDICS_ANZ, contactVolumeBand_r = VR40_60, complexityLevel_r = L3,
      aiMaturity_r = Moderate, priorityAht_r = True, priorityQa_r = True,
      priorityDeflection_r = True, priorityCx_r = False, revenueBand_r = Unknown,
      revenueImpact_r = Retention, skipRevenueImpact_r = True, rolloutScope_r = Single,
      investmentMode_r = Auto, customEdgetierCost_r = Fin 180000\<rparr>"


section \<open>The numeric input boundary\<close>

text \<open>
  Each number field hands \<^verbatim>\<open>parseFloat(e.target.value) || 0\<close> to its setter. A
  JavaScript string is a sequence of UTF-16 code units, here natural numbers;
  \<open>codeUnits\<close> writes an ASCII text as one.

  \<^verbatim>\<open>parseFloat\<close> is the ECMAScript built-in. It trims leading white space (the
  \<^verbatim>\<open>WhiteSpace\<close> and \<^verbatim>\<open>LineTerminator\<close> code points), converts the longest prefix
  that is a \<^verbatim>\<open>StrDecimalLiteral\<close> (an optional sign, then \<^verbatim>\<open>Infinity\<close> or decimal
  digits with an optional fraction and exponent), and is \<^verbatim>\<open>NaN\<close> when no prefix is
  one. The value of a literal is the double nearest to its decimal value, ties to the even
  significand, infinite when the rounded magnitude reaches \<open>2 ^ 1024\<close> and 0 when it
  rounds below the smallest subnormal. The sign of a zero is not kept.
\<close>

type_synonym jsstring = "nat list"

definition codeUnits :: "string \<Rightarrow> jsstring" where
  "codeUnits s = map of_char s"

definition isWhiteSpace :: "nat \<Rightarrow> bool" where
  "isWhiteSpace c =
     (c \<in> set [0x09, 0x0A, 0x0B, 0x0C, 0x0D, 0x20, 0xA0, 0x1680, 0x2028, 0x2029, 0x202F,
                0x205F, 0x3000, 0xFEFF]
      \<or> (0x2000 \<le> c \<and> c \<le> 0x200A))"

definition isDigit :: "nat \<Rightarrow> bool" where
  "isDigit c = (48 \<le> c \<and> c \<le> 57)"

definition digitValue :: "nat \<Rightarrow> nat" where
  "digitValue c = c - 48"

definition digitsValue :: "jsstring \<Rightarrow> nat" where
  "digitsValue ds = foldl (\<lambda>n c. 10 * n + digitValue c) 0 ds"

text \<open>
  Rounding the non-negative rational \<open>p / q\<close> to a double. \<open>binaryExponent\<close> is the
  \<open>e\<close> with \<open>2 ^ e \<le> p / q < 2 ^ (e + 1)\<close>, found from the bit lengths of \<open>p\<close> and
  \<open>q\<close>; a double has 53 significant bits, and below \<open>2 ^ (- 1022)\<close> the spacing stays
  \<open>2 ^ (- 1074)\<close>.
\<close>

fun bitLength :: "nat \<Rightarrow> nat" where
  "bitLength n = (if n = 0 then 0 else Suc (bitLength (n div 2)))"

declare bitLength.simps [simp del]

definition atLeastPow2 :: "nat \<Rightarrow> nat \<Rightarrow> int \<Rightarrow> bool" where
  "atLeastPow2 p q e = (if 0 \<le> e then q * 2 ^ nat e \<le> p else q \<le> p * 2 ^ nat (- e))"

definition binaryExponent :: "nat \<Rightarrow> nat \<Rightarrow> int" where
  "binaryExponent p q =
     (let e0 = int (bitLength p) - int (bitLength q)
      in if atLeastPow2 p q e0 then e0 else e0 - 1)"

definition roundHalfEven :: "nat \<Rightarrow> nat \<Rightarrow> nat" where
  "roundHalfEven p q =
     (let f = p div q; r = p mod q
      in if 2 * r < q then f else if q < 2 * r then f + 1 else if even f then f else f + 1)"

definition roundToDouble :: "nat \<Rightarrow> nat \<Rightarrow> jsnum" where
  "roundToDouble p q =
     (if p = 0 then Fin 0
      else
        let e = max (binaryExponent p q) (- 1022); s = e - 52
        in if 0 \<le> s then
             (let n = roundHalfEven p (q * 2 ^ nat s)
              in if 2 ^ 1024 \<le> n * 2 ^ nat s then PInf else Fin (real (n * 2 ^ nat s)))
           else Fin (real (roundHalfEven (p * 2 ^ nat (- s)) q) / 2 ^ nat (- s)))"

text \<open>The double of the decimal \<open>m * 10 ^ d\<close>.\<close>

definition decimalToDouble :: "nat \<Rightarrow> int \<Rightarrow> jsnum" where
  "decimalToDouble m d =
     (if 0 \<le> d then roundToDouble (m * 10 ^ nat d) 1 else roundToDouble m (10 ^ nat (- d)))"

text \<open>
  \<^verbatim>\<open>ExponentPart\<close>: \<^verbatim>\<open>e\<close> or \<^verbatim>\<open>E\<close>, an optional sign and at least one digit. Text
  that does not continue that way is not part of the literal, and the exponent is 0.
\<close>

definition exponentPart :: "jsstring \<Rightarrow> int" where
  "exponentPart s =
     (case s of
        [] \<Rightarrow> 0
      | c # t \<Rightarrow>
          if c = of_char CHR ''e'' \<or> c = of_char CHR ''E'' then
            (case t of
               [] \<Rightarrow> 0
             | d # u \<Rightarrow>
                 if d = of_char CHR ''-'' then - int (digitsValue (takeWhile isDigit u))
                 else if d = of_char CHR ''+'' then int (digitsValue (takeWhile isDigit u))
                 else int (digitsValue (takeWhile isDigit t)))
          else 0)"

text \<open>
  \<^verbatim>\<open>StrUnsignedDecimalLiteral\<close>: \<^verbatim>\<open>Infinity\<close>, or digits with an optional point and
  fraction, or a point followed by digits; \<open>None\<close> when the text starts with none of them.
\<close>

definition strUnsignedDecimalLiteral :: "jsstring \<Rightarrow> jsnum option" where
  "strUnsignedDecimalLiteral s =
     (if take 8 s = codeUnits ''Infinity'' then Some PInf
      else
        let ip = takeWhile isDigit s; r1 = dropWhile isDigit s
        in case r1 of
             c # t \<Rightarrow>
               if c = of_char CHR ''.'' then
                 (let fp = takeWhile isDigit t; r2 = dropWhile isDigit t
                  in if ip = [] \<and> fp = [] then None
                     else Some (decimalToDouble (digitsValue (ip @ fp))
                                  (exponentPart r2 - int (length fp))))
               else if ip = [] then None
               else Some (decimalToDouble (digitsValue ip) (exponentPart r1))
           | [] \<Rightarrow> if ip = [] then None else Some (decimalToDouble (digitsValue ip) 0))"

definition parseFloat :: "jsstring \<Rightarrow> jsnum" where
  "parseFloat s =
     (let t = dropWhile isWhiteSpace s
      in case t of
           [] \<Rightarrow> NaN
         | c # r \<Rightarrow>
             if c = of_char CHR ''-'' then
               (case strUnsignedDecimalLiteral r of None \<Rightarrow> NaN | Some v \<Rightarrow> - v)
             else if c = of_char CHR ''+'' then
               (case strUnsignedDecimalLiteral r of None \<Rightarrow> NaN | Some v \<Rightarrow> v)
             else (case strUnsignedDecimalLiteral t of None \<Rightarrow> NaN | Some v \<Rightarrow> v))"

text \<open>
  \<^verbatim>\<open>onChange={(e) => onChange(parseFloat(e.target.value) || 0)}\<close> of \<^verbatim>\<open>NumberInput\<close>:
  the value passed on to the setter of the field.
\<close>

definition NumberInput_onChange :: "jsstring \<Rightarrow> jsnum" where
  "NumberInput_onChange v = or_zero (parseFloat v)"

text \<open>
  The two number fields of the six-step calculator, written inline:
  \<^verbatim>\<open>setKnownCostPerAgent(parseFloat(e.target.value) || 0)\<close> and
  \<^verbatim>\<open>setCustomEdgetierCost(parseFloat(e.target.value) || 0)\<close>.
\<close>

definition knownCostPerAgent_onChange :: "jsstring \<Rightarrow> answers_r \<Rightarrow> answers_r" where
  "knownCostPerAgent_onChange v a = a\<lparr>knownCostPerAgent_r := or_zero (parseFloat v)\<rparr>"

definition customEdgetierCost_onChange :: "jsstring \<Rightarrow> answers_r \<Rightarrow> answers_r" where
  "customEdgetierCost_onChange v a = a\<lparr>customEdgetierCost_r := or_zero (parseFloat v)\<rparr>"

text \<open>
  The six \<^verbatim>\<open>NumberInput\<close> fields of the three-step calculator: each passes its state
  setter as \<^verbatim>\<open>onChange\<close>, so the state receives what \<^verbatim>\<open>NumberInput\<close> delivers.
\<close>

definition setNumAgents :: "jsstring \<Rightarrow> answers_d \<Rightarrow> answers_d" where
  "setNumAgents v a = a\<lparr>numAgents_d := NumberInput_onChange v\<rparr>"

definition setAhtMins :: "jsstring \<Rightarrow> answers_d \<Rightarrow> answers_d" where
  "setAhtMins v a = a\<lparr>ahtMins_d := NumberInput_onChange v\<rparr>"

definition setContactsPerMonth :: "jsstring \<Rightarrow> answers_d \<Rightarrow> answers_d" where
  "setContactsPerMonth v a = a\<lparr>contactsPerMonth_d := NumberInput_onChange v\<rparr>"

definition setAnnualCostPerAgent :: "jsstring \<Rightarrow> answers_d \<Rightarrow> answers_d" where
  "setAnnualCostPerAgent v a = a\<lparr>annualCostPerAgent_d := NumberInput_onChange v\<rparr>"

definition setEdgetierAnnualCost :: "jsstring \<Rightarrow> answers_d \<Rightarrow> answers_d" where
  "setEdgetierAnnualCost v a = a\<lparr>edgetierAnnualCost_d := NumberInput_onChange v\<rparr>"

definition setAnnualRevenueInfluenced :: "jsstring \<Rightarrow> answers_d \<Rightarrow> answers_d" where
  "setAnnualRevenueInfluenced v a = a\<lparr>annualRevenueInfluenced_d := NumberInput_onChange v\<rparr>"


section \<open>The investment rule in the words of the specification\<close>

text \<open>
  The specification selects a base licence by ordered breakpoints on the number of agents
  (at most 25, 50, 100, 250, else), multiplies it by 1, 1.8 or 2.5 for a single, a few or
  multiple teams, and clamps a supplied cost to at least 0. These three definitions follow
  its words; the theorems on the investment cost compare them with the code.
\<close>

definition spec_baseLicense ::
  "jsnum \<Rightarrow> jsnum \<Rightarrow> jsnum \<Rightarrow> jsnum \<Rightarrow> jsnum \<Rightarrow> jsnum \<Rightarrow> jsnum" where
  "spec_baseLicense tier1 tier2 tier3 tier4 tier5 n =
     (if n \<le> Fin 25 then tier1
      else if n \<le> Fin 50 then tier2
      else if n \<le> Fin 100 then tier3
      else if n \<le> Fin 250 then tier4
      else tier5)"

fun spec_rolloutMultiplier :: "RolloutScope \<Rightarrow> jsnum" where
  "spec_rolloutMultiplier Single = Fin 1"
| "spec_rolloutMultiplier Few = Fin 1.8"
| "spec_rolloutMultiplier Multi = Fin 2.5"

definition spec_clampNonNegative :: "jsnum \<Rightarrow> jsnum" where
  "spec_clampNonNegative x = (if x < Fin 0 then Fin 0 else x)"


section \<open>Arithmetic on finite values\<close>

lemma Fin_minus [simp]: "Fin x - Fin y = Fin (x - y)"
  by (simp add: minus_jsnum_def)

lemma or_zero_Fin [simp]: "or_zero (Fin x) = Fin x"
  by (simp add: or_zero_def)

lemmas consts_defs = WORKING_HOURS_PER_YEAR_def DEFAULT_COST_PER_AGENT_def qaCoveragePct_def
  qaTimePerContactMins_def qaHourlyMultiplier_def workingDaysPerMonth_def

lemmas b_defs = numAgents_b_def annualCostPerAgent_b_def contactsPerAgentPerDay_b_def
  contactsPerMonth_b_def contactsPerYear_b_def ahtMins_b_def
  costPerAgentHour_b_def baselineHandlingHours_b_def baselineHandlingCost_b_def
  costPerContactBaseline_b_def ahtFactor_b_def qaFactor_b_def deflectionFactor_b_def
  ahtReductionPct_b_def qaEfficiencyGainPct_b_def contactDeflectionPct_b_def
  revenueGate_b_def annualRevenueInfluenced_b_def revenueProtectionPct_b_def
  edgetierAnnualCost_b_def newAhtMins_b_def newHandlingHours_b_def newHandlingCost_b_def
  savingsAht_b_def hoursSavedAht_b_def qaHourlyCost_b_def baselineQaHours_b_def
  baselineQaCost_b_def newQaHours_b_def newQaCost_b_def savingsQa_b_def hoursSavedQa_b_def
  contactsAvoidedPerYear_b_def savingsDeflection_b_def revenueProtected_b_def
  totalAnnualBenefit_b_def netGain_b_def roiPct_b_def totalHoursSaved_b_def
  monthlyBenefit_b_def paybackMonths_b_def

lemmas r_defs = numAgents_r_def annualCostPerAgent_r_def contactsPerAgentPerDay_r_def
  contactsPerMonth_r_def contactsPerYear_r_def ahtMins_r_def
  costPerAgentHour_r_def baselineHandlingHours_r_def baselineHandlingCost_r_def
  costPerContactBaseline_r_def ahtFactor_r_def qaFactor_r_def deflectionFactor_r_def
  ahtReductionPct_r_def qaEfficiencyGainPct_r_def contactDeflectionPct_r_def
  revenueGate_r_def annualRevenueInfluenced_r_def baseRevenuePct_r_def
  revenueProtectionPct_r_def baseLicense_r_def rolloutMultiplier_r_def
  edgetierAnnualCost_r_def newAhtMins_r_def newHandlingHours_r_def newHandlingCost_r_def
  savingsAht_r_def hoursSavedAht_r_def qaHourlyCost_r_def baselineQaHours_r_def
  baselineQaCost_r_def newQaHours_r_def newQaCost_r_def savingsQa_r_def hoursSavedQa_r_def
  contactsAvoidedPerYear_r_def savingsDeflection_r_def revenueProtected_r_def
  totalAnnualBenefit_r_def netGain_r_def roiPct_r_def totalHoursSaved_r_def
  monthlyBenefit_r_def paybackMonths_r_def

lemmas d_defs = contactsPerYear_d_def costPerAgentHour_d_def baselineHandlingHours_d_def
  baselineHandlingCost_d_def costPerContactBaseline_d_def ahtReductionPct_d_def
  qaEfficiencyGainPct_d_def contactDeflectionPct_d_def revenueProtectionPct_d_def
  newAhtMins_d_def newHandlingHours_d_def newHandlingCost_d_def savingsAht_d_def
  hoursSavedAht_d_def qaHourlyCost_d_def baselineQaHours_d_def baselineQaCost_d_def
  newQaHours_d_def newQaCost_d_def savingsQa_d_def hoursSavedQa_d_def
  contactsAvoidedPerYear_d_def savingsDeflection_d_def revenueProtected_d_def
  totalAnnualBenefit_d_def netGain_d_def roiPct_d_def totalHoursSaved_d_def
  monthlyBenefit_d_def paybackMonths_d_def
  ASSUMPTIONS_ahtReductionPct_d_def ASSUMPTIONS_qaEfficiencyGainPct_d_def
  ASSUMPTIONS_contactDeflectionPct_d_def ASSUMPTIONS_revenueProtectionPct_d_def

lemmas parse_defs = NumberInput_onChange_def parseFloat_def strUnsignedDecimalLiteral_def
  exponentPart_def decimalToDouble_def roundToDouble_def roundHalfEven_def binaryExponent_def
  atLeastPow2_def bitLength.simps isWhiteSpace_def isDigit_def digitsValue_def digitValue_def
  codeUnits_def Let_def

lemma finite_posE:
  assumes "isFinite x" and "Fin 0 < x"
  obtains m where "x = Fin m" and "0 < m"
  using assms by (cases x) auto

lemma finiteE:
  assumes "isFinite x"
  obtains m where "x = Fin m"
  using assms by (cases x) auto

lemma ahtMins_level: "isFinite (COMPLEXITY_LEVELS_ahtMins l) \<and> Fin 0 < COMPLEXITY_LEVELS_ahtMins l"
  by (cases l) simp_all


subsection \<open>The seven-step calculator on finite values\<close>

lemma numAgents_b_Fin: "isFinite (numAgents_b a) \<and> Fin 0 < numAgents_b a"
  by (cases "teamSizeBand_b a") (simp_all add: numAgents_b_def)

lemma contactsPerAgentPerDay_b_Fin:
  "isFinite (contactsPerAgentPerDay_b a) \<and> Fin 0 < contactsPerAgentPerDay_b a"
  by (cases "contactVolumeBand_b a") (simp_all add: contactsPerAgentPerDay_b_def)

lemma contactsPerYear_b_Fin: "isFinite (contactsPerYear_b a) \<and> Fin 0 < contactsPerYear_b a"
proof -
  obtain n where n: "numAgents_b a = Fin n" "0 < n"
    using numAgents_b_Fin finite_posE by blast
  obtain d where d: "contactsPerAgentPerDay_b a = Fin d" "0 < d"
    using contactsPerAgentPerDay_b_Fin finite_posE by blast
  show ?thesis
    using n d by (simp add: contactsPerYear_b_def contactsPerMonth_b_def workingDaysPerMonth_def)
qed

lemma ahtReductionPct_b_Fin:
  "isFinite (ahtReductionPct_b a) \<and> Fin 0 < ahtReductionPct_b a \<and> ahtReductionPct_b a < Fin 100"
  by (cases "aiLevel_b a") (simp_all add: ahtReductionPct_b_def ahtFactor_b_def)

lemma qaEfficiencyGainPct_b_Fin:
  "isFinite (qaEfficiencyGainPct_b a) \<and> priorityQa_b a = (Fin 0 < qaEfficiencyGainPct_b a)
   \<and> (\<not> priorityQa_b a) = (qaEfficiencyGainPct_b a = Fin 0)"
  by (cases "aiLevel_b a") (simp_all add: qaEfficiencyGainPct_b_def qaFactor_b_def)

lemma contactDeflectionPct_b_Fin:
  "isFinite (contactDeflectionPct_b a)
   \<and> priorityDeflection_b a = (Fin 0 < contactDeflectionPct_b a)
   \<and> (\<not> priorityDeflection_b a) = (contactDeflectionPct_b a = Fin 0)"
  by (cases "aiLevel_b a") (simp_all add: contactDeflectionPct_b_def deflectionFactor_b_def)

lemma revenueProtected_b_Fin:
  "isFinite (revenueProtected_b a) \<and> revenueGate_b a = (Fin 0 < revenueProtected_b a)
   \<and> (\<not> revenueGate_b a) = (revenueProtected_b a = Fin 0)"
  by (cases "revenueBand_b a")
    (simp_all add: revenueProtected_b_def annualRevenueInfluenced_b_def
      revenueProtectionPct_b_def revenueGate_b_def)

lemma closed_b:
  assumes c: "contactsPerYear_b a = Fin c" "0 < c"
    and m: "ahtMins_b a = Fin m" "0 < m"
    and p: "ahtReductionPct_b a = Fin p" "p < 100"
    and q: "qaEfficiencyGainPct_b a = Fin q"
    and d: "contactDeflectionPct_b a = Fin d"
    and r: "revenueProtected_b a = Fin r"
  shows "baselineHandlingHours_b a = Fin (c * m / 60)"
    and "baselineHandlingCost_b a = Fin (c * m / 60 * (45000 / 1760))"
    and "costPerContactBaseline_b a = Fin (m / 60 * (45000 / 1760))"
    and "savingsAht_b a = Fin (c * m / 60 * (45000 / 1760) * (p / 100))"
    and "hoursSavedAht_b a = Fin (c * m / 60 * (p / 100))"
    and "savingsQa_b a = Fin (c * (5 / 100) * (6 / 60) * (45000 / 1760 * 1.2) * (q / 100))"
    and "hoursSavedQa_b a = Fin (c * (5 / 100) * (6 / 60) * (q / 100))"
    and "savingsDeflection_b a = Fin (c * m / 60 * (45000 / 1760) * (d / 100))"
    and "totalAnnualBenefit_b a =
           Fin (c * m / 60 * (45000 / 1760) * (p / 100)
                + c * (5 / 100) * (6 / 60) * (45000 / 1760 * 1.2) * (q / 100)
                + c * m / 60 * (45000 / 1760) * (d / 100) + r)"
proof -
  have h: "costPerAgentHour_b a = Fin (45000 / 1760)"
    by (simp add: costPerAgentHour_b_def annualCostPerAgent_b_def consts_defs)
  show bh: "baselineHandlingHours_b a = Fin (c * m / 60)"
    using c m by (simp add: baselineHandlingHours_b_def)
  show bc: "baselineHandlingCost_b a = Fin (c * m / 60 * (45000 / 1760))"
    by (simp add: baselineHandlingCost_b_def bh h)
  show cpc: "costPerContactBaseline_b a = Fin (m / 60 * (45000 / 1760))"
    using c by (simp add: costPerContactBaseline_b_def bc)
  have na: "newAhtMins_b a = Fin (m * (1 - p / 100))"
    using m p by (simp add: newAhtMins_b_def)
  have "0 < m * (1 - p / 100)" using m p by simp
  then have nh: "newHandlingHours_b a = Fin (c * (m * (1 - p / 100)) / 60)"
    using c by (simp add: newHandlingHours_b_def na)
  show sa: "savingsAht_b a = Fin (c * m / 60 * (45000 / 1760) * (p / 100))"
    by (simp add: savingsAht_b_def newHandlingCost_b_def nh bc h field_simps)
  show "hoursSavedAht_b a = Fin (c * m / 60 * (p / 100))"
    by (simp add: hoursSavedAht_b_def nh bh field_simps)
  have qh: "baselineQaHours_b a = Fin (c * (5 / 100) * (6 / 60))"
    using c by (simp add: baselineQaHours_b_def consts_defs)
  have nq: "newQaHours_b a = Fin (c * (5 / 100) * (6 / 60) * (1 - q / 100))"
    using q by (simp add: newQaHours_b_def qh)
  have qc: "qaHourlyCost_b a = Fin (45000 / 1760 * 1.2)"
    by (simp add: qaHourlyCost_b_def h consts_defs)
  show sq: "savingsQa_b a = Fin (c * (5 / 100) * (6 / 60) * (45000 / 1760 * 1.2) * (q / 100))"
    by (simp add: savingsQa_b_def baselineQaCost_b_def newQaCost_b_def qh nq qc field_simps)
  show "hoursSavedQa_b a = Fin (c * (5 / 100) * (6 / 60) * (q / 100))"
    by (simp add: hoursSavedQa_b_def qh nq field_simps)
  show sd: "savingsDeflection_b a = Fin (c * m / 60 * (45000 / 1760) * (d / 100))"
    using c d by (simp add: savingsDeflection_b_def contactsAvoidedPerYear_b_def cpc)
  show "totalAnnualBenefit_b a =
           Fin (c * m / 60 * (45000 / 1760) * (p / 100)
                + c * (5 / 100) * (6 / 60) * (45000 / 1760 * 1.2) * (q / 100)
                + c * m / 60 * (45000 / 1760) * (d / 100) + r)"
    by (simp add: totalAnnualBenefit_b_def sa sq sd r)
qed


subsection \<open>The six-step calculator on finite values\<close>

lemma numAgents_r_Fin: "isFinite (numAgents_r a) \<and> Fin 0 < numAgents_r a"
  by (cases "teamSizeBand_r a") (simp_all add: numAgents_r_def)

lemma contactsPerAgentPerDay_r_Fin:
  "isFinite (contactsPerAgentPerDay_r a) \<and> Fin 0 < contactsPerAgentPerDay_r a"
  by (cases "contactVolumeBand_r a") (simp_all add: contactsPerAgentPerDay_r_def)

lemma contactsPerYear_r_Fin: "isFinite (contactsPerYear_r a) \<and> Fin 0 < contactsPerYear_r a"
proof -
  obtain n where n: "numAgents_r a = Fin n" "0 < n"
    using numAgents_r_Fin finite_posE by blast
  obtain d where d: "contactsPerAgentPerDay_r a = Fin d" "0 < d"
    using contactsPerAgentPerDay_r_Fin finite_posE by blast
  show ?thesis
    using n d by (simp add: contactsPerYear_r_def contactsPerMonth_r_def workingDaysPerMonth_def)
qed

lemma regionCost_Fin:
  "isFinite (nullish (REGION_COST_MAP b) (the (REGION_COST_MAP UK_IE_NORDICS_ANZ)))
   \<and> Fin 0 < nullish (REGION_COST_MAP b) (the (REGION_COST_MAP UK_IE_NORDICS_ANZ))"
  by (cases b) simp_all

lemma annualCostPerAgent_r_pos: "Fin 0 < annualCostPerAgent_r a"
  using regionCost_Fin [of "regionBand_r a"] by (simp add: annualCostPerAgent_r_def)

lemma ahtReductionPct_r_Fin:
  "isFinite (ahtReductionPct_r a) \<and> Fin 0 < ahtReductionPct_r a \<and> ahtReductionPct_r a < Fin 100"
  by (cases "aiMaturity_r a") (simp_all add: ahtReductionPct_r_def ahtFactor_r_def)

lemma qaEfficiencyGainPct_r_Fin:
  "isFinite (qaEfficiencyGainPct_r a) \<and> priorityQa_r a = (Fin 0 < qaEfficiencyGainPct_r a)
   \<and> (\<not> priorityQa_r a) = (qaEfficiencyGainPct_r a = Fin 0)"
  by (cases "aiMaturity_r a") (simp_all add: qaEfficiencyGainPct_r_def qaFactor_r_def)

lemma contactDeflectionPct_r_Fin:
  "isFinite (contactDeflectionPct_r a)
   \<and> priorityDeflection_r a = (Fin 0 < contactDeflectionPct_r a)
   \<and> (\<not> priorityDeflection_r a) = (contactDeflectionPct_r a = Fin 0)"
  by (cases "aiMaturity_r a") (simp_all add: contactDeflectionPct_r_def deflectionFactor_r_def)

lemma revenueProtected_r_Fin:
  "isFinite (revenueProtected_r a) \<and> revenueGate_r a = (Fin 0 < revenueProtected_r a)
   \<and> (\<not> revenueGate_r a) = (revenueProtected_r a = Fin 0)"
  by (cases "revenueBand_r a"; cases "revenueImpact_r a")
    (simp_all add: revenueProtected_r_def annualRevenueInfluenced_r_def
      revenueProtectionPct_r_def baseRevenuePct_r_def revenueGate_r_def)

lemma closed_r:
  assumes c: "contactsPerYear_r a = Fin c" "0 < c"
    and k: "annualCostPerAgent_r a = Fin k"
    and m: "ahtMins_r a = Fin m" "0 < m"
    and p: "ahtReductionPct_r a = Fin p" "p < 100"
    and q: "qaEfficiencyGainPct_r a = Fin q"
    and d: "contactDeflectionPct_r a = Fin d"
    and r: "revenueProtected_r a = Fin r"
  shows "baselineHandlingHours_r a = Fin (c * m / 60)"
    and "baselineHandlingCost_r a = Fin (c * m / 60 * (k / 1760))"
    and "costPerContactBaseline_r a = Fin (m / 60 * (k / 1760))"
    and "savingsAht_r a = Fin (c * m / 60 * (k / 1760) * (p / 100))"
    and "hoursSavedAht_r a = Fin (c * m / 60 * (p / 100))"
    and "savingsQa_r a = Fin (c * (5 / 100) * (6 / 60) * (k / 1760 * 1.2) * (q / 100))"
    and "hoursSavedQa_r a = Fin (c * (5 / 100) * (6 / 60) * (q / 100))"
    and "savingsDeflection_r a = Fin (c * m / 60 * (k / 1760) * (d / 100))"
    and "totalAnnualBenefit_r a =
           Fin (c * m / 60 * (k / 1760) * (p / 100)
                + c * (5 / 100) * (6 / 60) * (k / 1760 * 1.2) * (q / 100)
                + c * m / 60 * (k / 1760) * (d / 100) + r)"
proof -
  have h: "costPerAgentHour_r a = Fin (k / 1760)"
    by (simp add: costPerAgentHour_r_def k consts_defs)
  show bh: "baselineHandlingHours_r a = Fin (c * m / 60)"
    using c m by (simp add: baselineHandlingHours_r_def)
  show bc: "baselineHandlingCost_r a = Fin (c * m / 60 * (k / 1760))"
    by (simp add: baselineHandlingCost_r_def bh h)
  show cpc: "costPerContactBaseline_r a = Fin (m / 60 * (k / 1760))"
    using c by (simp add: costPerContactBaseline_r_def bc)
  have na: "newAhtMins_r a = Fin (m * (1 - p / 100))"
    using m p by (simp add: newAhtMins_r_def)
  have "0 < m * (1 - p / 100)" using m p by simp
  then have nh: "newHandlingHours_r a = Fin (c * (m * (1 - p / 100)) / 60)"
    using c by (simp add: newHandlingHours_r_def na)
  show sa: "savingsAht_r a = Fin (c * m / 60 * (k / 1760) * (p / 100))"
    by (simp add: savingsAht_r_def newHandlingCost_r_def nh bc h field_simps)
  show "hoursSavedAht_r a = Fin (c * m / 60 * (p / 100))"
    by (simp add: hoursSavedAht_r_def nh bh field_simps)
  have qh: "baselineQaHours_r a = Fin (c * (5 / 100) * (6 / 60))"
    using c by (simp add: baselineQaHours_r_def consts_defs)
  have nq: "newQaHours_r a = Fin (c * (5 / 100) * (6 / 60) * (1 - q / 100))"
    using q by (simp add: newQaHours_r_def qh)
  have qc: "qaHourlyCost_r a = Fin (k / 1760 * 1.2)"
    by (simp add: qaHourlyCost_r_def h consts_defs)
  show sq: "savingsQa_r a = Fin (c * (5 / 100) * (6 / 60) * (k / 1760 * 1.2) * (q / 100))"
    by (simp add: savingsQa_r_def baselineQaCost_r_def newQaCost_r_def qh nq qc field_simps)
  show "hoursSavedQa_r a = Fin (c * (5 / 100) * (6 / 60) * (q / 100))"
    by (simp add: hoursSavedQa_r_def qh nq field_simps)
  show sd: "savingsDeflection_r a = Fin (c * m / 60 * (k / 1760) * (d / 100))"
    using c d by (simp add: savingsDeflection_r_def contactsAvoidedPerYear_r_def cpc)
  show "totalAnnualBenefit_r a =
           Fin (c * m / 60 * (k / 1760) * (p / 100)
                + c * (5 / 100) * (6 / 60) * (k / 1760 * 1.2) * (q / 100)
                + c * m / 60 * (k / 1760) * (d / 100) + r)"
    by (simp add: totalAnnualBenefit_r_def sa sq sd r)
qed

subsection \<open>Payback\<close>

lemma not_pos_if_le_zero: "t \<le> Fin 0 \<Longrightarrow> \<not> Fin 0 < (t :: jsnum)"
  by (cases t) simp_all

lemma monthly_positive: "Fin 0 < (if Fin 0 < t then t / Fin 12 else Fin 0) \<Longrightarrow> Fin 0 < t"
  by (cases t) (simp_all split: if_splits)

lemma quotient_not_negative:
  "\<not> c < Fin 0 \<Longrightarrow> \<not> (if Fin 0 < m then c / m else Fin 0) < Fin 0"
  by (cases m; cases c) (simp_all add: not_less)

lemma quotient_finite_positive:
  "isFinite c \<Longrightarrow> Fin 0 < c \<Longrightarrow> isFinite t \<Longrightarrow> Fin 0 < t \<Longrightarrow>
   Fin 0 < t / Fin 12 \<and> isFinite (c / (t / Fin 12)) \<and> Fin 0 < c / (t / Fin 12)"
  by (cases t; cases c) simp_all

subsection \<open>A percentage of 0\<close>

lemma times_Fin_one: "x * Fin 1 = x"
  by (cases x) simp_all

lemma unchanged_factor: "x * (Fin 1 - Fin 0 / Fin 100) = x"
  by (simp add: times_Fin_one)











lemma annualCost_finite_if_benchmark:
  "costMode_r a = Benchmark \<Longrightarrow> isFinite (annualCostPerAgent_r a)"
  using regionCost_Fin [of "regionBand_r a"] by (simp add: annualCostPerAgent_r_def)

subsection \<open>Investment cost and total benefit\<close>

lemma edgetierAnnualCost_b_Fin:
  "isFinite (edgetierAnnualCost_b a) \<and> Fin 0 < edgetierAnnualCost_b a"
  by (cases "teamSizeBand_b a") (simp_all add: edgetierAnnualCost_b_def numAgents_b_def)

lemma edgetierAnnualCost_r_auto:
  "investmentMode_r a = Auto \<Longrightarrow>
   isFinite (edgetierAnnualCost_r a) \<and> Fin 0 < edgetierAnnualCost_r a"
  by (cases "teamSizeBand_r a"; cases "rolloutScope_r a")
    (simp_all add: edgetierAnnualCost_r_def baseLicense_r_def rolloutMultiplier_r_def
      numAgents_r_def)

lemma totalAnnualBenefit_b_pos:
  "isFinite (totalAnnualBenefit_b a) \<and> Fin 0 < totalAnnualBenefit_b a"
proof -
  obtain c where c: "contactsPerYear_b a = Fin c" "0 < c"
    using contactsPerYear_b_Fin finite_posE by blast
  obtain m where m: "ahtMins_b a = Fin m" "0 < m"
    using ahtMins_level finite_posE unfolding ahtMins_b_def by blast
  obtain p where p: "ahtReductionPct_b a = Fin p" "0 < p"
    using ahtReductionPct_b_Fin finite_posE by blast
  have p100: "p < 100" using ahtReductionPct_b_Fin [of a] by (simp add: p)
  obtain q where q: "qaEfficiencyGainPct_b a = Fin q"
    using qaEfficiencyGainPct_b_Fin finiteE by blast
  obtain d where d: "contactDeflectionPct_b a = Fin d"
    using contactDeflectionPct_b_Fin finiteE by blast
  obtain r where r: "revenueProtected_b a = Fin r"
    using revenueProtected_b_Fin finiteE by blast
  have q0: "0 \<le> q" using qaEfficiencyGainPct_b_Fin [of a] by (auto simp add: q not_less)
  have d0: "0 \<le> d" using contactDeflectionPct_b_Fin [of a] by (auto simp add: d not_less)
  have r0: "0 \<le> r" using revenueProtected_b_Fin [of a] by (auto simp add: r not_less)
  have "0 < c * m / 60 * (45000 / 1760) * (p / 100)" using c m p by simp
  moreover have "0 \<le> c * (5 / 100) * (6 / 60) * (45000 / 1760 * 1.2) * (q / 100)"
    using c q0 by simp
  moreover have "0 \<le> c * m / 60 * (45000 / 1760) * (d / 100)" using c m d0 by simp
  ultimately show ?thesis
    using r0 by (simp add: closed_b(9) [OF c m p(1) p100 q d r])
qed

lemma totalAnnualBenefit_r_pos:
  assumes fin: "isFinite (annualCostPerAgent_r a)"
  shows "isFinite (totalAnnualBenefit_r a) \<and> Fin 0 < totalAnnualBenefit_r a"
proof -
  obtain c where c: "contactsPerYear_r a = Fin c" "0 < c"
    using contactsPerYear_r_Fin finite_posE by blast
  obtain k where k: "annualCostPerAgent_r a = Fin k" "0 < k"
    using fin annualCostPerAgent_r_pos finite_posE by blast
  obtain m where m: "ahtMins_r a = Fin m" "0 < m"
    using ahtMins_level finite_posE unfolding ahtMins_r_def by blast
  obtain p where p: "ahtReductionPct_r a = Fin p" "0 < p"
    using ahtReductionPct_r_Fin finite_posE by blast
  have p100: "p < 100" using ahtReductionPct_r_Fin [of a] by (simp add: p)
  obtain q where q: "qaEfficiencyGainPct_r a = Fin q"
    using qaEfficiencyGainPct_r_Fin finiteE by blast
  obtain d where d: "contactDeflectionPct_r a = Fin d"
    using contactDeflectionPct_r_Fin finiteE by blast
  obtain r where r: "revenueProtected_r a = Fin r"
    using revenueProtected_r_Fin finiteE by blast
  have q0: "0 \<le> q" using qaEfficiencyGainPct_r_Fin [of a] by (auto simp add: q not_less)
  have d0: "0 \<le> d" using contactDeflectionPct_r_Fin [of a] by (auto simp add: d not_less)
  have r0: "0 \<le> r" using revenueProtected_r_Fin [of a] by (auto simp add: r not_less)
  have "0 < c * m / 60 * (k / 1760) * (p / 100)" using c k m p by simp
  moreover have "0 \<le> c * (5 / 100) * (6 / 60) * (k / 1760 * 1.2) * (q / 100)"
    using c k q0 by simp
  moreover have "0 \<le> c * m / 60 * (k / 1760) * (d / 100)" using c k m d0 by simp
  ultimately show ?thesis
    using r0 by (simp add: closed_r(9) [OF c k(1) m p(1) p100 q d r])
qed


subsection \<open>A higher complexity level\<close>







subsection \<open>Parsing\<close>

lemma or_zero_cases: "or_zero x = (if isNaN x then Fin 0 else x)"
  by (cases x) (simp_all add: or_zero_def)

lemma parseFloat_no_literal:
  assumes "dropWhile isWhiteSpace v = c # r"
    and "\<not> isDigit c" and "c \<noteq> of_char CHR ''+''" and "c \<noteq> of_char CHR ''-''"
    and "c \<noteq> of_char CHR ''.''" and "c \<noteq> of_char CHR ''I''"
  shows "parseFloat v = NaN"
proof -
  have "take 8 (c # r) \<noteq> codeUnits ''Infinity''"
    using assms(6) by (cases r) (auto simp add: codeUnits_def)
  moreover have "takeWhile isDigit (c # r) = []" "dropWhile isDigit (c # r) = c # r"
    using assms(2) by simp_all
  ultimately have "strUnsignedDecimalLiteral (c # r) = None"
    using assms(5) by (simp add: strUnsignedDecimalLiteral_def)
  then show ?thesis
    unfolding parseFloat_def Let_def assms(1) using assms(3,4) by simp
qed

lemma parseFloat_blank:
  assumes "dropWhile isWhiteSpace v = []"
  shows "parseFloat v = NaN"
  unfolding parseFloat_def Let_def assms by simp

text \<open>
  Texts at the ends of the range of a double: \<^verbatim>\<open>1e309\<close> is above the largest double and
  parses to \<^verbatim>\<open>Infinity\<close>, \<^verbatim>\<open>1e-400\<close> is below half the smallest one and parses to
  0. A leading no-break space is white space.
\<close>

lemma parseFloat_overflow: "parseFloat (codeUnits ''1e309'') = PInf"
  by (simp add: parse_defs)

lemma parseFloat_underflow: "parseFloat (codeUnits ''1e-400'') = Fin 0"
  by (simp add: parse_defs)

lemma parseFloat_no_break_space: "parseFloat (0xA0 # codeUnits ''5'') = Fin 5"
  by (simp add: parse_defs)

lemma parseFloat_zero: "parseFloat (codeUnits ''0'') = Fin 0"
  by (simp add: parse_defs)

lemma NumberInput_overflow: "NumberInput_onChange (codeUnits ''1e309'') = PInf"
  by (simp add: NumberInput_onChange_def parseFloat_overflow or_zero_def)

subsection \<open>Answers the investment branch does not read\<close>

lemma rolloutScope_unused:
  assumes mode: "investmentMode_r a = Custom"
  shows "results_r (a\<lparr>rolloutScope_r := s\<rparr>) = results_r a"
proof -
  let ?a = "a\<lparr>rolloutScope_r := s\<rparr>"
  have [simp]: "numAgents_r ?a = numAgents_r a"
    by (simp add: numAgents_r_def)
  have [simp]: "annualCostPerAgent_r ?a = annualCostPerAgent_r a"
    by (simp add: annualCostPerAgent_r_def)
  have [simp]: "contactsPerAgentPerDay_r ?a = contactsPerAgentPerDay_r a"
    by (simp add: contactsPerAgentPerDay_r_def)
  have [simp]: "contactsPerMonth_r ?a = contactsPerMonth_r a"
    by (simp add: contactsPerMonth_r_def)
  have [simp]: "contactsPerYear_r ?a = contactsPerYear_r a"
    by (simp add: contactsPerYear_r_def)
  have [simp]: "ahtMins_r ?a = ahtMins_r a"
    by (simp add: ahtMins_r_def)
  have [simp]: "costPerAgentHour_r ?a = costPerAgentHour_r a"
    by (simp add: costPerAgentHour_r_def)
  have [simp]: "baselineHandlingHours_r ?a = baselineHandlingHours_r a"
    by (simp add: baselineHandlingHours_r_def)
  have [simp]: "baselineHandlingCost_r ?a = baselineHandlingCost_r a"
    by (simp add: baselineHandlingCost_r_def)
  have [simp]: "costPerContactBaseline_r ?a = costPerContactBaseline_r a"
    by (simp add: costPerContactBaseline_r_def)
  have [simp]: "ahtFactor_r ?a = ahtFactor_r a"
    by (simp add: ahtFactor_r_def)
  have [simp]: "qaFactor_r ?a = qaFactor_r a"
    by (simp add: qaFactor_r_def)
  have [simp]: "deflectionFactor_r ?a = deflectionFactor_r a"
    by (simp add: deflectionFactor_r_def)
  have [simp]: "ahtReductionPct_r ?a = ahtReductionPct_r a"
    by (simp add: ahtReductionPct_r_def)
  have [simp]: "qaEfficiencyGainPct_r ?a = qaEfficiencyGainPct_r a"
    by (simp add: qaEfficiencyGainPct_r_def)
  have [simp]: "contactDeflectionPct_r ?a = contactDeflectionPct_r a"
    by (simp add: contactDeflectionPct_r_def)
  have [simp]: "revenueGate_r ?a = revenueGate_r a"
    by (simp add: revenueGate_r_def)
  have [simp]: "annualRevenueInfluenced_r ?a = annualRevenueInfluenced_r a"
    by (simp add: annualRevenueInfluenced_r_def)
  have [simp]: "baseRevenuePct_r ?a = baseRevenuePct_r a"
    by (simp add: baseRevenuePct_r_def)
  have [simp]: "revenueProtectionPct_r ?a = revenueProtectionPct_r a"
    by (simp add: revenueProtectionPct_r_def)
  have [simp]: "baseLicense_r ?a = baseLicense_r a"
    by (simp add: baseLicense_r_def)
  have [simp]: "newAhtMins_r ?a = newAhtMins_r a"
    by (simp add: newAhtMins_r_def)
  have [simp]: "newHandlingHours_r ?a = newHandlingHours_r a"
    by (simp add: newHandlingHours_r_def)
  have [simp]: "newHandlingCost_r ?a = newHandlingCost_r a"
    by (simp add: newHandlingCost_r_def)
  have [simp]: "savingsAht_r ?a = savingsAht_r a"
    by (simp add: savingsAht_r_def)
  have [simp]: "hoursSavedAht_r ?a = hoursSavedAht_r a"
    by (simp add: hoursSavedAht_r_def)
  have [simp]: "qaHourlyCost_r ?a = qaHourlyCost_r a"
    by (simp add: qaHourlyCost_r_def)
  have [simp]: "baselineQaHours_r ?a = baselineQaHours_r a"
    by (simp add: baselineQaHours_r_def)
  have [simp]: "baselineQaCost_r ?a = baselineQaCost_r a"
    by (simp add: baselineQaCost_r_def)
  have [simp]: "newQaHours_r ?a = newQaHours_r a"
    by (simp add: newQaHours_r_def)
  have [simp]: "newQaCost_r ?a = newQaCost_r a"
    by (simp add: newQaCost_r_def)
  have [simp]: "savingsQa_r ?a = savingsQa_r a"
    by (simp add: savingsQa_r_def)
  have [simp]: "hoursSavedQa_r ?a = hoursSavedQa_r a"
    by (simp add: hoursSavedQa_r_def)
  have [simp]: "contactsAvoidedPerYear_r ?a = contactsAvoidedPerYear_r a"
    by (simp add: contactsAvoidedPerYear_r_def)
  have [simp]: "savingsDeflection_r ?a = savingsDeflection_r a"
    by (simp add: savingsDeflection_r_def)
  have [simp]: "revenueProtected_r ?a = revenueProtected_r a"
    by (simp add: revenueProtected_r_def)
  have [simp]: "totalAnnualBenefit_r ?a = totalAnnualBenefit_r a"
    by (simp add: totalAnnualBenefit_r_def)
  have [simp]: "totalHoursSaved_r ?a = totalHoursSaved_r a"
    by (simp add: totalHoursSaved_r_def)
  have [simp]: "monthlyBenefit_r ?a = monthlyBenefit_r a"
    by (simp add: monthlyBenefit_r_def)
  have [simp]: "edgetierAnnualCost_r ?a = edgetierAnnualCost_r a"
    using mode by (simp add: edgetierAnnualCost_r_def)
  have [simp]: "netGain_r ?a = netGain_r a"
    using mode by (simp add: netGain_r_def)
  have [simp]: "roiPct_r ?a = roiPct_r a"
    using mode by (simp add: roiPct_r_def)
  have [simp]: "paybackMonths_r ?a = paybackMonths_r a"
    using mode by (simp add: paybackMonths_r_def)
  show ?thesis
    by (simp add: results_r_def)
qed

lemma customEdgetierCost_unused:
  assumes mode: "investmentMode_r a = Auto"
  shows "results_r (a\<lparr>customEdgetierCost_r := c\<rparr>) = results_r a"
proof -
  let ?a = "a\<lparr>customEdgetierCost_r := c\<rparr>"
  have [simp]: "numAgents_r ?a = numAgents_r a"
    by (simp add: numAgents_r_def)
  have [simp]: "annualCostPerAgent_r ?a = annualCostPerAgent_r a"
    by (simp add: annualCostPerAgent_r_def)
  have [simp]: "contactsPerAgentPerDay_r ?a = contactsPerAgentPerDay_r a"
    by (simp add: contactsPerAgentPerDay_r_def)
  have [simp]: "contactsPerMonth_r ?a = contactsPerMonth_r a"
    by (simp add: contactsPerMonth_r_def)
  have [simp]: "contactsPerYear_r ?a = contactsPerYear_r a"
    by (simp add: contactsPerYear_r_def)
  have [simp]: "ahtMins_r ?a = ahtMins_r a"
    by (simp add: ahtMins_r_def)
  have [simp]: "costPerAgentHour_r ?a = costPerAgentHour_r a"
    by (simp add: costPerAgentHour_r_def)
  have [simp]: "baselineHandlingHours_r ?a = baselineHandlingHours_r a"
    by (simp add: baselineHandlingHours_r_def)
  have [simp]: "baselineHandlingCost_r ?a = baselineHandlingCost_r a"
    by (simp add: baselineHandlingCost_r_def)
  have [simp]: "costPerContactBaseline_r ?a = costPerContactBaseline_r a"
    by (simp add: costPerContactBaseline_r_def)
  have [simp]: "ahtFactor_r ?a = ahtFactor_r a"
    by (simp add: ahtFactor_r_def)
  have [simp]: "qaFactor_r ?a = qaFactor_r a"
    by (simp add: qaFactor_r_def)
  have [simp]: "deflectionFactor_r ?a = deflectionFactor_r a"
    by (simp add: deflectionFactor_r_def)
  have [simp]: "ahtReductionPct_r ?a = ahtReductionPct_r a"
    by (simp add: ahtReductionPct_r_def)
  have [simp]: "qaEfficiencyGainPct_r ?a = qaEfficiencyGainPct_r a"
    by (simp add: qaEfficiencyGainPct_r_def)
  have [simp]: "contactDeflectionPct_r ?a = contactDeflectionPct_r a"
    by (simp add: contactDeflectionPct_r_def)
  have [simp]: "revenueGate_r ?a = revenueGate_r a"
    by (simp add: revenueGate_r_def)
  have [simp]: "annualRevenueInfluenced_r ?a = annualRevenueInfluenced_r a"
    by (simp add: annualRevenueInfluenced_r_def)
  have [simp]: "baseRevenuePct_r ?a = baseRevenuePct_r a"
    by (simp add: baseRevenuePct_r_def)
  have [simp]: "revenueProtectionPct_r ?a = revenueProtectionPct_r a"
    by (simp add: revenueProtectionPct_r_def)
  have [simp]: "baseLicense_r ?a = baseLicense_r a"
    by (simp add: baseLicense_r_def)
  have [simp]: "newAhtMins_r ?a = newAhtMins_r a"
    by (simp add: newAhtMins_r_def)
  have [simp]: "newHandlingHours_r ?a = newHandlingHours_r a"
    by (simp add: newHandlingHours_r_def)
  have [simp]: "newHandlingCost_r ?a = newHandlingCost_r a"
    by (simp add: newHandlingCost_r_def)
  have [simp]: "savingsAht_r ?a = savingsAht_r a"
    by (simp add: savingsAht_r_def)
  have [simp]: "hoursSavedAht_r ?a = hoursSavedAht_r a"
    by (simp add: hoursSavedAht_r_def)
  have [simp]: "qaHourlyCost_r ?a = qaHourlyCost_r a"
    by (simp add: qaHourlyCost_r_def)
  have [simp]: "baselineQaHours_r ?a = baselineQaHours_r a"
    by (simp add: baselineQaHours_r_def)
  have [simp]: "baselineQaCost_r ?a = baselineQaCost_r a"
    by (simp add: baselineQaCost_r_def)
  have [simp]: "newQaHours_r ?a = newQaHours_r a"
    by (simp add: newQaHours_r_def)
  have [simp]: "newQaCost_r ?a = newQaCost_r a"
    by (simp add: newQaCost_r_def)
  have [simp]: "savingsQa_r ?a = savingsQa_r a"
    by (simp add: savingsQa_r_def)
  have [simp]: "hoursSavedQa_r ?a = hoursSavedQa_r a"
    by (simp add: hoursSavedQa_r_def)
  have [simp]: "contactsAvoidedPerYear_r ?a = contactsAvoidedPerYear_r a"
    by (simp add: contactsAvoidedPerYear_r_def)
  have [simp]: "savingsDeflection_r ?a = savingsDeflection_r a"
    by (simp add: savingsDeflection_r_def)
  have [simp]: "revenueProtected_r ?a = revenueProtected_r a"
    by (simp add: revenueProtected_r_def)
  have [simp]: "totalAnnualBenefit_r ?a = totalAnnualBenefit_r a"
    by (simp add: totalAnnualBenefit_r_def)
  have [simp]: "totalHoursSaved_r ?a = totalHoursSaved_r a"
    by (simp add: totalHoursSaved_r_def)
  have [simp]: "monthlyBenefit_r ?a = monthlyBenefit_r a"
    by (simp add: monthlyBenefit_r_def)
  have [simp]: "rolloutMultiplier_r ?a = rolloutMultiplier_r a"
    by (simp add: rolloutMultiplier_r_def)
  have [simp]: "edgetierAnnualCost_r ?a = edgetierAnnualCost_r a"
    using mode by (simp add: edgetierAnnualCost_r_def)
  have [simp]: "netGain_r ?a = netGain_r a"
    using mode by (simp add: netGain_r_def)
  have [simp]: "roiPct_r ?a = roiPct_r a"
    using mode by (simp add: roiPct_r_def)
  have [simp]: "paybackMonths_r ?a = paybackMonths_r a"
    using mode by (simp add: paybackMonths_r_def)
  show ?thesis
    by (simp add: results_r_def)
qed


section \<open>The scenario of the specification\<close>

text \<open>
  C1. The seven-step calculator at team size "26-50", contact volume "30-40", complexity
  level 3, AI level "medium", the priorities handling time, QA workload and contact
  deflection on and customer experience off, revenue not included: the result has
  40 agents, 7 minutes of handling time, 29400 * 12 = 352800 contacts a year, an annual
  cost of 120000 and no protected revenue. The baseline handling cost is 11576250/11
  (1052386.36..), the total annual benefit 6846525/22 (311205.68..), the net gain
  4206525/22 (191205.68..) and the return 56087/352 percent (159.34..). The
  specification's figures 311214 and 191214 were added up from intermediate values it had
  rounded (a cost per contact of 2.983 on 52920 avoided contacts alone moves the sum by up
  to 26); the exact values lie within 9 of them, the other two within one half.
\<close>

theorem C1_scenario_banded:
  "res_numAgents_b (results_b scenario_b) = Fin 40
   \<and> res_ahtMins_b (results_b scenario_b) = Fin 7
   \<and> res_contactsPerYear_b (results_b scenario_b) = Fin (29400 * 12)
   \<and> res_contactsPerYear_b (results_b scenario_b) = Fin 352800
   \<and> res_edgetierAnnualCost_b (results_b scenario_b) = Fin 120000
   \<and> res_revenueProtected_b (results_b scenario_b) = Fin 0
   \<and> baselineHandlingCost_b scenario_b = Fin (11576250 / 11)
   \<and> Fin (1052386 - 1 / 2) < baselineHandlingCost_b scenario_b
   \<and> baselineHandlingCost_b scenario_b < Fin (1052386 + 1 / 2)
   \<and> res_totalAnnualBenefit_b (results_b scenario_b) = Fin (6846525 / 22)
   \<and> Fin (311214 - 9) < res_totalAnnualBenefit_b (results_b scenario_b)
   \<and> res_totalAnnualBenefit_b (results_b scenario_b) < Fin (311214 + 9)
   \<and> res_netGain_b (results_b scenario_b) = Fin (4206525 / 22)
   \<and> Fin (191214 - 9) < res_netGain_b (results_b scenario_b)
   \<and> res_netGain_b (results_b scenario_b) < Fin (191214 + 9)
   \<and> res_roiPct_b (results_b scenario_b) = Fin (56087 / 352)
   \<and> Fin (159 - 1 / 2) < res_roiPct_b (results_b scenario_b)
   \<and> res_roiPct_b (results_b scenario_b) < Fin (159 + 1 / 2)"
  by (simp add: results_b_def b_defs consts_defs scenario_b_def)


section \<open>Revenue gating\<close>

text \<open>
  C2. In the seven-step and the six-step calculator the protected revenue of the result is
  non-zero exactly when revenue is included (not skipped), the revenue band is not
  "unknown" and the customer-experience priority is on. When one of the three fails, the
  influenced revenue, the protection percentage and the protected revenue are all 0. None
  of the three is ever negative.
\<close>

theorem C2_revenue_gating:
  "(res_revenueProtected_b (results_b a) \<noteq> Fin 0)
     = (includeRevenueImpact_b a \<and> revenueBand_b a \<noteq> Unknown \<and> priorityCx_b a)
   \<and> (res_revenueProtected_r (results_r a') \<noteq> Fin 0)
     = (\<not> skipRevenueImpact_r a' \<and> revenueBand_r a' \<noteq> Unknown \<and> priorityCx_r a')
   \<and> (\<not> (includeRevenueImpact_b a \<and> revenueBand_b a \<noteq> Unknown \<and> priorityCx_b a) \<longrightarrow>
        annualRevenueInfluenced_b a = Fin 0 \<and> revenueProtectionPct_b a = Fin 0
        \<and> res_revenueProtected_b (results_b a) = Fin 0)
   \<and> (\<not> (\<not> skipRevenueImpact_r a' \<and> revenueBand_r a' \<noteq> Unknown \<and> priorityCx_r a') \<longrightarrow>
        annualRevenueInfluenced_r a' = Fin 0 \<and> revenueProtectionPct_r a' = Fin 0
        \<and> res_revenueProtected_r (results_r a') = Fin 0)
   \<and> Fin 0 \<le> annualRevenueInfluenced_b a \<and> Fin 0 \<le> revenueProtectionPct_b a
   \<and> Fin 0 \<le> res_revenueProtected_b (results_b a)
   \<and> Fin 0 \<le> annualRevenueInfluenced_r a' \<and> Fin 0 \<le> revenueProtectionPct_r a'
   \<and> Fin 0 \<le> res_revenueProtected_r (results_r a')"
proof -
  have gb: "revenueGate_b a
      = (includeRevenueImpact_b a \<and> revenueBand_b a \<noteq> Unknown \<and> priorityCx_b a)"
    by (simp add: revenueGate_b_def)
  have gr: "revenueGate_r a'
      = (\<not> skipRevenueImpact_r a' \<and> revenueBand_r a' \<noteq> Unknown \<and> priorityCx_r a')"
    by (simp add: revenueGate_r_def)
  have rb: "res_revenueProtected_b (results_b a) = revenueProtected_b a"
    by (simp add: results_b_def)
  have rr: "res_revenueProtected_r (results_r a') = revenueProtected_r a'"
    by (simp add: results_r_def)
  obtain x where x: "revenueProtected_b a = Fin x"
    using revenueProtected_b_Fin finiteE by blast
  obtain y where y: "revenueProtected_r a' = Fin y"
    using revenueProtected_r_Fin finiteE by blast
  have xg: "revenueGate_b a = (0 < x)" "(\<not> revenueGate_b a) = (x = 0)"
    using revenueProtected_b_Fin [of a] by (auto simp add: x)
  have yg: "revenueGate_r a' = (0 < y)" "(\<not> revenueGate_r a') = (y = 0)"
    using revenueProtected_r_Fin [of a'] by (auto simp add: y)
  have ib: "Fin 0 \<le> annualRevenueInfluenced_b a \<and> Fin 0 \<le> revenueProtectionPct_b a"
    by (cases "revenueBand_b a")
      (simp_all add: annualRevenueInfluenced_b_def revenueProtectionPct_b_def)
  have ir: "Fin 0 \<le> annualRevenueInfluenced_r a' \<and> Fin 0 \<le> revenueProtectionPct_r a'"
    by (cases "revenueBand_r a'"; cases "revenueImpact_r a'")
      (simp_all add: annualRevenueInfluenced_r_def revenueProtectionPct_r_def
        baseRevenuePct_r_def)
  have zb: "\<not> revenueGate_b a \<Longrightarrow>
      annualRevenueInfluenced_b a = Fin 0 \<and> revenueProtectionPct_b a = Fin 0"
    by (simp add: annualRevenueInfluenced_b_def revenueProtectionPct_b_def)
  have zr: "\<not> revenueGate_r a' \<Longrightarrow>
      annualRevenueInfluenced_r a' = Fin 0 \<and> revenueProtectionPct_r a' = Fin 0"
    by (simp add: annualRevenueInfluenced_r_def revenueProtectionPct_r_def)
  show ?thesis
    unfolding rb rr gb [symmetric] gr [symmetric]
    using xg yg ib ir zb zr by (auto simp add: x y)
qed

theorem C2_revenue_gating_witness:
  "\<not> (includeRevenueImpact_b scenario_b \<and> revenueBand_b scenario_b \<noteq> Unknown
        \<and> priorityCx_b scenario_b)
   \<and> annualRevenueInfluenced_b scenario_b = Fin 0
   \<and> revenueProtectionPct_b scenario_b = Fin 0
   \<and> res_revenueProtected_b (results_b scenario_b) = Fin 0
   \<and> \<not> (\<not> skipRevenueImpact_r initial_r \<and> revenueBand_r initial_r \<noteq> Unknown
        \<and> priorityCx_r initial_r)
   \<and> annualRevenueInfluenced_r initial_r = Fin 0
   \<and> revenueProtectionPct_r initial_r = Fin 0
   \<and> res_revenueProtected_r (results_r initial_r) = Fin 0
   \<and> res_revenueProtected_b (results_b (scenario_b\<lparr>priorityCx_b := True,
        revenueBand_b := Lt50, includeRevenueImpact_b := True\<rparr>)) \<noteq> Fin 0
   \<and> res_revenueProtected_r (results_r (initial_r\<lparr>priorityCx_r := True,
        revenueBand_r := Gt1000, skipRevenueImpact_r := False\<rparr>)) \<noteq> Fin 0"
  using C2_revenue_gating [of scenario_b initial_r]
    C2_revenue_gating [of "scenario_b\<lparr>priorityCx_b := True, revenueBand_b := Lt50,
        includeRevenueImpact_b := True\<rparr>"
      "initial_r\<lparr>priorityCx_r := True, revenueBand_r := Gt1000,
        skipRevenueImpact_r := False\<rparr>"]
  by (simp add: scenario_b_def initial_r_def)


section \<open>Priority factors\<close>





section \<open>Payback\<close>

text \<open>
  C4, as the code has it. Every calculator first takes the monthly benefit, one twelfth of
  the total annual benefit when that total is positive and 0 otherwise, and then the
  payback, the investment cost divided by the monthly benefit when the monthly benefit is
  positive and 0 otherwise. So a division is only reached with a positive divisor, a
  total of at most 0 gives payback 0, and whenever the monthly benefit is positive the
  payback is the investment cost divided by a twelfth of the total. In the seven-step
  calculator, and in the six-step one in benchmark mode, the total is positive and the
  payback is that quotient; in the seven-step calculator it is positive and finite. The
  payback is not negative when the investment cost is not negative, which holds in the
  seven-step calculator and in the automatic investment mode of the six-step one; an
  entered cost is used as entered.
\<close>

theorem C4_payback:
  "res_paybackMonths_b (results_b a)
     = (if Fin 0 < res_totalAnnualBenefit_b (results_b a)
        then res_edgetierAnnualCost_b (results_b a)
               / (res_totalAnnualBenefit_b (results_b a) / Fin 12)
        else Fin 0)
   \<and> Fin 0 < res_totalAnnualBenefit_b (results_b a)
   \<and> Fin 0 < res_paybackMonths_b (results_b a)
   \<and> isFinite (res_paybackMonths_b (results_b a))
   \<and> monthlyBenefit_d a'
     = (if Fin 0 < res_totalAnnualBenefit_d (results_d a')
        then res_totalAnnualBenefit_d (results_d a') / Fin 12 else Fin 0)
   \<and> res_paybackMonths_d (results_d a')
     = (if Fin 0 < monthlyBenefit_d a' then edgetierAnnualCost_d a' / monthlyBenefit_d a'
        else Fin 0)
   \<and> (res_totalAnnualBenefit_d (results_d a') \<le> Fin 0 \<longrightarrow>
        res_paybackMonths_d (results_d a') = Fin 0)
   \<and> (Fin 0 < monthlyBenefit_d a' \<longrightarrow>
        res_paybackMonths_d (results_d a')
          = edgetierAnnualCost_d a' / (res_totalAnnualBenefit_d (results_d a') / Fin 12))
   \<and> (\<not> edgetierAnnualCost_d a' < Fin 0 \<longrightarrow> \<not> res_paybackMonths_d (results_d a') < Fin 0)
   \<and> monthlyBenefit_r a''
     = (if Fin 0 < res_totalAnnualBenefit_r (results_r a'')
        then res_totalAnnualBenefit_r (results_r a'') / Fin 12 else Fin 0)
   \<and> res_paybackMonths_r (results_r a'')
     = (if Fin 0 < monthlyBenefit_r a''
        then res_edgetierAnnualCost_r (results_r a'') / monthlyBenefit_r a'' else Fin 0)
   \<and> (Fin 0 < monthlyBenefit_r a'' \<longrightarrow>
        res_paybackMonths_r (results_r a'')
          = res_edgetierAnnualCost_r (results_r a'')
              / (res_totalAnnualBenefit_r (results_r a'') / Fin 12))
   \<and> (\<not> res_edgetierAnnualCost_r (results_r a'') < Fin 0 \<longrightarrow>
        \<not> res_paybackMonths_r (results_r a'') < Fin 0)
   \<and> (investmentMode_r a'' = Auto \<longrightarrow> \<not> res_paybackMonths_r (results_r a'') < Fin 0)
   \<and> (costMode_r a'' = Benchmark \<longrightarrow>
        Fin 0 < res_totalAnnualBenefit_r (results_r a'')
        \<and> res_paybackMonths_r (results_r a'')
            = res_edgetierAnnualCost_r (results_r a'')
                / (res_totalAnnualBenefit_r (results_r a'') / Fin 12))"
proof -
  have cb: "isFinite (edgetierAnnualCost_b a)" "Fin 0 < edgetierAnnualCost_b a"
    using edgetierAnnualCost_b_Fin [of a] by simp_all
  have tb: "isFinite (totalAnnualBenefit_b a)" "Fin 0 < totalAnnualBenefit_b a"
    using totalAnnualBenefit_b_pos [of a] by simp_all
  note qb = quotient_finite_positive [OF cb tb]
  have B: "paybackMonths_b a
        = (if Fin 0 < totalAnnualBenefit_b a
           then edgetierAnnualCost_b a / (totalAnnualBenefit_b a / Fin 12) else Fin 0)
      \<and> Fin 0 < totalAnnualBenefit_b a \<and> Fin 0 < paybackMonths_b a
      \<and> isFinite (paybackMonths_b a)"
    using tb(2) qb by (simp add: paybackMonths_b_def monthlyBenefit_b_def)
  have D1: "monthlyBenefit_d a'
        = (if Fin 0 < totalAnnualBenefit_d a' then totalAnnualBenefit_d a' / Fin 12 else Fin 0)
      \<and> paybackMonths_d a'
        = (if Fin 0 < monthlyBenefit_d a' then edgetierAnnualCost_d a' / monthlyBenefit_d a'
           else Fin 0)"
    by (simp add: paybackMonths_d_def monthlyBenefit_d_def)
  have D2: "totalAnnualBenefit_d a' \<le> Fin 0 \<longrightarrow> paybackMonths_d a' = Fin 0"
    using not_pos_if_le_zero [of "totalAnnualBenefit_d a'"]
    by (simp add: paybackMonths_d_def monthlyBenefit_d_def)
  have D3: "Fin 0 < monthlyBenefit_d a' \<longrightarrow>
      paybackMonths_d a' = edgetierAnnualCost_d a' / (totalAnnualBenefit_d a' / Fin 12)"
    using monthly_positive [of "totalAnnualBenefit_d a'"]
    by (auto simp add: paybackMonths_d_def monthlyBenefit_d_def)
  have D4: "\<not> edgetierAnnualCost_d a' < Fin 0 \<longrightarrow> \<not> paybackMonths_d a' < Fin 0"
    unfolding paybackMonths_d_def using quotient_not_negative by blast
  have R1: "monthlyBenefit_r a''
        = (if Fin 0 < totalAnnualBenefit_r a'' then totalAnnualBenefit_r a'' / Fin 12
           else Fin 0)
      \<and> paybackMonths_r a''
        = (if Fin 0 < monthlyBenefit_r a''
           then edgetierAnnualCost_r a'' / monthlyBenefit_r a'' else Fin 0)"
    by (simp add: paybackMonths_r_def monthlyBenefit_r_def)
  have R3: "Fin 0 < monthlyBenefit_r a'' \<longrightarrow>
      paybackMonths_r a'' = edgetierAnnualCost_r a'' / (totalAnnualBenefit_r a'' / Fin 12)"
    using monthly_positive [of "totalAnnualBenefit_r a''"]
    by (auto simp add: paybackMonths_r_def monthlyBenefit_r_def)
  have R4: "\<not> edgetierAnnualCost_r a'' < Fin 0 \<longrightarrow> \<not> paybackMonths_r a'' < Fin 0"
    unfolding paybackMonths_r_def using quotient_not_negative by blast
  have R5: "investmentMode_r a'' = Auto \<longrightarrow> \<not> paybackMonths_r a'' < Fin 0"
  proof
    assume "investmentMode_r a'' = Auto"
    then have "\<not> edgetierAnnualCost_r a'' < Fin 0"
      using edgetierAnnualCost_r_auto [of a''] by (cases "edgetierAnnualCost_r a''") simp_all
    then show "\<not> paybackMonths_r a'' < Fin 0" using R4 by blast
  qed
  have R6: "costMode_r a'' = Benchmark \<longrightarrow>
      Fin 0 < totalAnnualBenefit_r a''
      \<and> paybackMonths_r a'' = edgetierAnnualCost_r a'' / (totalAnnualBenefit_r a'' / Fin 12)"
  proof
    assume "costMode_r a'' = Benchmark"
    then have t: "isFinite (totalAnnualBenefit_r a'')" "Fin 0 < totalAnnualBenefit_r a''"
      using totalAnnualBenefit_r_pos [OF annualCost_finite_if_benchmark] by simp_all
    then obtain tv where tv: "totalAnnualBenefit_r a'' = Fin tv" "0 < tv"
      using finite_posE by blast
    show "Fin 0 < totalAnnualBenefit_r a''
      \<and> paybackMonths_r a'' = edgetierAnnualCost_r a'' / (totalAnnualBenefit_r a'' / Fin 12)"
      using tv by (simp add: paybackMonths_r_def monthlyBenefit_r_def)
  qed
  have res: "res_paybackMonths_b (results_b a) = paybackMonths_b a"
    "res_totalAnnualBenefit_b (results_b a) = totalAnnualBenefit_b a"
    "res_edgetierAnnualCost_b (results_b a) = edgetierAnnualCost_b a"
    "res_paybackMonths_d (results_d a') = paybackMonths_d a'"
    "res_totalAnnualBenefit_d (results_d a') = totalAnnualBenefit_d a'"
    "res_paybackMonths_r (results_r a'') = paybackMonths_r a''"
    "res_totalAnnualBenefit_r (results_r a'') = totalAnnualBenefit_r a''"
    "res_edgetierAnnualCost_r (results_r a'') = edgetierAnnualCost_r a''"
    by (simp_all add: results_b_def results_d_def results_r_def)
  show ?thesis
    unfolding res using B D1 D2 D3 D4 R1 R3 R4 R5 R6 by blast
qed

theorem C4_payback_witness:
  "res_totalAnnualBenefit_d (results_d (initial_d\<lparr>contactsPerMonth_d := Fin 0\<rparr>)) \<le> Fin 0
   \<and> res_paybackMonths_d (results_d (initial_d\<lparr>contactsPerMonth_d := Fin 0\<rparr>)) = Fin 0
   \<and> Fin 0 < monthlyBenefit_d initial_d
   \<and> res_paybackMonths_d (results_d initial_d)
       = edgetierAnnualCost_d initial_d / (res_totalAnnualBenefit_d (results_d initial_d) / Fin 12)
   \<and> \<not> edgetierAnnualCost_d initial_d < Fin 0
   \<and> \<not> res_paybackMonths_d (results_d initial_d) < Fin 0
   \<and> Fin 0 < monthlyBenefit_r initial_r
   \<and> \<not> res_edgetierAnnualCost_r (results_r initial_r) < Fin 0
   \<and> investmentMode_r initial_r = Auto
   \<and> costMode_r initial_r = Benchmark
   \<and> \<not> res_paybackMonths_r (results_r initial_r) < Fin 0
   \<and> Fin 0 < res_totalAnnualBenefit_r (results_r initial_r)
   \<and> res_paybackMonths_r (results_r initial_r)
       = res_edgetierAnnualCost_r (results_r initial_r)
           / (res_totalAnnualBenefit_r (results_r initial_r) / Fin 12)"
proof -
  have z: "res_totalAnnualBenefit_d (results_d (initial_d\<lparr>contactsPerMonth_d := Fin 0\<rparr>))
      \<le> Fin 0"
    by (simp add: results_d_def d_defs consts_defs initial_d_def)
  have d: "Fin 0 < monthlyBenefit_d initial_d" "\<not> edgetierAnnualCost_d initial_d < Fin 0"
    by (simp_all add: d_defs consts_defs initial_d_def)
  have r: "Fin 0 < monthlyBenefit_r initial_r"
    "\<not> res_edgetierAnnualCost_r (results_r initial_r) < Fin 0"
    "investmentMode_r initial_r = Auto" "costMode_r initial_r = Benchmark"
    by (simp_all add: results_r_def r_defs consts_defs initial_r_def)
  show ?thesis
    using z d r
      C4_payback [of scenario_b "initial_d\<lparr>contactsPerMonth_d := Fin 0\<rparr>" initial_r]
      C4_payback [of scenario_b initial_d initial_r]
    by blast
qed

text \<open>
  The claim as written says the payback is never negative. Typing -120000 into the cost
  field of the six-step calculator in custom investment mode stores -120000, and the
  payback of the initial answers is then -704/483 months.
\<close>

theorem C4_negative_payback_counterexample:
  "customEdgetierCost_r
       (customEdgetierCost_onChange (codeUnits ''-120000'')
          (initial_r\<lparr>investmentMode_r := Custom\<rparr>))
     = Fin (- 120000)
   \<and> Fin 0 < res_totalAnnualBenefit_r (results_r
       (customEdgetierCost_onChange (codeUnits ''-120000'')
          (initial_r\<lparr>investmentMode_r := Custom\<rparr>)))
   \<and> res_paybackMonths_r (results_r
       (customEdgetierCost_onChange (codeUnits ''-120000'')
          (initial_r\<lparr>investmentMode_r := Custom\<rparr>)))
     = Fin (- (704 / 483))
   \<and> res_paybackMonths_r (results_r
       (customEdgetierCost_onChange (codeUnits ''-120000'')
          (initial_r\<lparr>investmentMode_r := Custom\<rparr>)))
     < Fin 0"
proof -
  have p: "customEdgetierCost_onChange (codeUnits ''-120000'')
        (initial_r\<lparr>investmentMode_r := Custom\<rparr>)
      = initial_r\<lparr>investmentMode_r := Custom, customEdgetierCost_r := Fin (- 120000)\<rparr>"
    by (simp add: customEdgetierCost_onChange_def parse_defs)
  show ?thesis
    unfolding p by (simp add: results_r_def r_defs consts_defs initial_r_def)
qed


section \<open>Investment cost\<close>

text \<open>
  C5, as the code has it. The seven-step calculator takes the annual cost from the number
  of agents by the breakpoints 25, 50, 100 and 250, with the tiers 80000, 120000, 180000,
  250000 and 350000. The six-step calculator in automatic mode has four tiers, 80000 up to
  50 agents, then 150000, 250000 and 350000 (the five-tier rule with the first two tiers
  equal), multiplied by 1, 1.8 or 2.5 for a single, a few or multiple teams. In custom
  mode the cost is the entered number itself; it agrees with the clamped number when the
  entered number is not negative.
\<close>

theorem C5_investment_cost:
  "res_edgetierAnnualCost_b (results_b a)
     = spec_baseLicense (Fin 80000) (Fin 120000) (Fin 180000) (Fin 250000) (Fin 350000)
         (res_numAgents_b (results_b a))
   \<and> (investmentMode_r a' = Auto \<longrightarrow>
        res_edgetierAnnualCost_r (results_r a')
          = spec_baseLicense (Fin 80000) (Fin 80000) (Fin 150000) (Fin 250000) (Fin 350000)
              (res_numAgents_r (results_r a'))
            * spec_rolloutMultiplier (rolloutScope_r a'))
   \<and> (investmentMode_r a' = Auto \<longrightarrow>
        res_edgetierAnnualCost_r (results_r a')
          = (if res_numAgents_r (results_r a') \<le> Fin 50 then Fin 80000
             else if res_numAgents_r (results_r a') \<le> Fin 100 then Fin 150000
             else if res_numAgents_r (results_r a') \<le> Fin 250 then Fin 250000
             else Fin 350000)
            * spec_rolloutMultiplier (rolloutScope_r a'))
   \<and> (investmentMode_r a' = Custom \<longrightarrow>
        res_edgetierAnnualCost_r (results_r a') = customEdgetierCost_r a')
   \<and> (investmentMode_r a' = Custom \<and> \<not> customEdgetierCost_r a' < Fin 0 \<longrightarrow>
        res_edgetierAnnualCost_r (results_r a') = spec_clampNonNegative (customEdgetierCost_r a'))"
proof -
  have B: "edgetierAnnualCost_b a
      = spec_baseLicense (Fin 80000) (Fin 120000) (Fin 180000) (Fin 250000) (Fin 350000)
          (numAgents_b a)"
    by (simp add: edgetierAnnualCost_b_def spec_baseLicense_def)
  have M: "rolloutMultiplier_r a' = spec_rolloutMultiplier (rolloutScope_r a')"
    by (cases "rolloutScope_r a'") (simp_all add: rolloutMultiplier_r_def)
  have L: "baseLicense_r a'
      = spec_baseLicense (Fin 80000) (Fin 80000) (Fin 150000) (Fin 250000) (Fin 350000)
          (numAgents_r a')"
    by (cases "teamSizeBand_r a'")
      (simp_all add: baseLicense_r_def spec_baseLicense_def numAgents_r_def)
  have L': "baseLicense_r a'
      = (if numAgents_r a' \<le> Fin 50 then Fin 80000
         else if numAgents_r a' \<le> Fin 100 then Fin 150000
         else if numAgents_r a' \<le> Fin 250 then Fin 250000
         else Fin 350000)"
    by (simp add: baseLicense_r_def)
  have A: "investmentMode_r a' = Auto \<Longrightarrow>
      edgetierAnnualCost_r a' = baseLicense_r a' * rolloutMultiplier_r a'"
    by (simp add: edgetierAnnualCost_r_def)
  have C: "investmentMode_r a' = Custom \<Longrightarrow> edgetierAnnualCost_r a' = customEdgetierCost_r a'"
    by (simp add: edgetierAnnualCost_r_def)
  have 1: "res_edgetierAnnualCost_b (results_b a)
      = spec_baseLicense (Fin 80000) (Fin 120000) (Fin 180000) (Fin 250000) (Fin 350000)
          (res_numAgents_b (results_b a))"
    using B by (simp add: results_b_def)
  have 2: "investmentMode_r a' = Auto \<longrightarrow>
      res_edgetierAnnualCost_r (results_r a')
        = spec_baseLicense (Fin 80000) (Fin 80000) (Fin 150000) (Fin 250000) (Fin 350000)
            (res_numAgents_r (results_r a'))
          * spec_rolloutMultiplier (rolloutScope_r a')"
    using A by (simp add: results_r_def L M)
  have 3: "investmentMode_r a' = Auto \<longrightarrow>
      res_edgetierAnnualCost_r (results_r a')
        = (if res_numAgents_r (results_r a') \<le> Fin 50 then Fin 80000
           else if res_numAgents_r (results_r a') \<le> Fin 100 then Fin 150000
           else if res_numAgents_r (results_r a') \<le> Fin 250 then Fin 250000
           else Fin 350000)
          * spec_rolloutMultiplier (rolloutScope_r a')"
    using A by (simp add: results_r_def L' M)
  have 4: "investmentMode_r a' = Custom \<longrightarrow>
      res_edgetierAnnualCost_r (results_r a') = customEdgetierCost_r a'"
    using C by (simp add: results_r_def)
  have 5: "investmentMode_r a' = Custom \<and> \<not> customEdgetierCost_r a' < Fin 0 \<longrightarrow>
      res_edgetierAnnualCost_r (results_r a') = spec_clampNonNegative (customEdgetierCost_r a')"
    using C by (simp add: results_r_def spec_clampNonNegative_def)
  show ?thesis
    using 1 2 3 4 5 by blast
qed

theorem C5_investment_cost_witness:
  "investmentMode_r (initial_r\<lparr>rolloutScope_r := Few\<rparr>) = Auto
   \<and> res_edgetierAnnualCost_r (results_r (initial_r\<lparr>rolloutScope_r := Few\<rparr>))
       = Fin 150000 * Fin 1.8
   \<and> investmentMode_r (initial_r\<lparr>investmentMode_r := Custom\<rparr>) = Custom
   \<and> \<not> customEdgetierCost_r (initial_r\<lparr>investmentMode_r := Custom\<rparr>) < Fin 0
   \<and> res_edgetierAnnualCost_r (results_r (initial_r\<lparr>investmentMode_r := Custom\<rparr>))
       = Fin 180000
   \<and> res_edgetierAnnualCost_r (results_r (initial_r\<lparr>investmentMode_r := Custom\<rparr>))
       = spec_clampNonNegative (Fin 180000)"
  using C5_investment_cost [of scenario_b "initial_r\<lparr>rolloutScope_r := Few\<rparr>"]
    C5_investment_cost [of scenario_b "initial_r\<lparr>investmentMode_r := Custom\<rparr>"]
  by (simp add: initial_r_def results_r_def numAgents_r_def spec_baseLicense_def
      spec_clampNonNegative_def)

text \<open>
  The claim as written says the custom cost is clamped to at least 0. With the entered
  cost -5 in custom mode the cost of the result is -5, and the clamp would give 0.
\<close>

theorem C5_custom_cost_not_clamped_counterexample:
  "investmentMode_r (initial_r\<lparr>investmentMode_r := Custom, customEdgetierCost_r := Fin (- 5)\<rparr>)
     = Custom
   \<and> res_edgetierAnnualCost_r (results_r
        (initial_r\<lparr>investmentMode_r := Custom, customEdgetierCost_r := Fin (- 5)\<rparr>))
     = Fin (- 5)
   \<and> spec_clampNonNegative (Fin (- 5)) = Fin 0
   \<and> res_edgetierAnnualCost_r (results_r
        (initial_r\<lparr>investmentMode_r := Custom, customEdgetierCost_r := Fin (- 5)\<rparr>))
     \<noteq> spec_clampNonNegative
          (customEdgetierCost_r
            (initial_r\<lparr>investmentMode_r := Custom, customEdgetierCost_r := Fin (- 5)\<rparr>))"
  by (simp add: results_r_def edgetierAnnualCost_r_def spec_clampNonNegative_def initial_r_def)


section \<open>Monotonicity in the complexity level\<close>





section \<open>What a number field delivers\<close>

text \<open>
  C7, as the code has it. Every number field delivers \<^verbatim>\<open>parseFloat(value) || 0\<close>: 0 when
  the text has no numeric prefix (so for an empty or blank text, and for text whose first
  character after the white space is not a digit, a sign, a point or \<^verbatim>\<open>I\<close>), and
  otherwise the parsed number itself. The delivered value is never \<^verbatim>\<open>NaN\<close>. Nothing is
  clamped: a negative number is delivered as it is, and so is an infinite one. The
  setters of both calculators with number fields store the delivered value.
\<close>

theorem C7_input_boundary:
  "NumberInput_onChange v = (if isNaN (parseFloat v) then Fin 0 else parseFloat v)
   \<and> \<not> isNaN (NumberInput_onChange v)
   \<and> (dropWhile isWhiteSpace v = [] \<longrightarrow> NumberInput_onChange v = Fin 0)
   \<and> (dropWhile isWhiteSpace v \<noteq> []
        \<and> \<not> isDigit (hd (dropWhile isWhiteSpace v))
        \<and> hd (dropWhile isWhiteSpace v) \<notin> set (codeUnits ''+-.I'') \<longrightarrow>
        NumberInput_onChange v = Fin 0)
   \<and> (parseFloat v < Fin 0 \<longrightarrow> NumberInput_onChange v = parseFloat v)
   \<and> (\<not> isFinite (parseFloat v) \<and> \<not> isNaN (parseFloat v) \<longrightarrow>
        NumberInput_onChange v = parseFloat v)
   \<and> knownCostPerAgent_r (knownCostPerAgent_onChange v a) = NumberInput_onChange v
   \<and> customEdgetierCost_r (customEdgetierCost_onChange v a) = NumberInput_onChange v
   \<and> numAgents_d (setNumAgents v a') = NumberInput_onChange v
   \<and> ahtMins_d (setAhtMins v a') = NumberInput_onChange v
   \<and> contactsPerMonth_d (setContactsPerMonth v a') = NumberInput_onChange v
   \<and> annualCostPerAgent_d (setAnnualCostPerAgent v a') = NumberInput_onChange v
   \<and> edgetierAnnualCost_d (setEdgetierAnnualCost v a') = NumberInput_onChange v
   \<and> annualRevenueInfluenced_d (setAnnualRevenueInfluenced v a') = NumberInput_onChange v"
proof -
  have 1: "NumberInput_onChange v = (if isNaN (parseFloat v) then Fin 0 else parseFloat v)"
    by (simp add: NumberInput_onChange_def or_zero_cases)
  have 2: "\<not> isNaN (NumberInput_onChange v)"
    by (cases "parseFloat v") (simp_all add: 1)
  have 3: "dropWhile isWhiteSpace v = [] \<longrightarrow> NumberInput_onChange v = Fin 0"
    by (simp add: 1 parseFloat_blank)
  have 4: "dropWhile isWhiteSpace v \<noteq> []
        \<and> \<not> isDigit (hd (dropWhile isWhiteSpace v))
        \<and> hd (dropWhile isWhiteSpace v) \<notin> set (codeUnits ''+-.I'') \<longrightarrow>
        NumberInput_onChange v = Fin 0"
  proof (intro impI, elim conjE)
    assume ne: "dropWhile isWhiteSpace v \<noteq> []"
      and nd: "\<not> isDigit (hd (dropWhile isWhiteSpace v))"
      and nh: "hd (dropWhile isWhiteSpace v) \<notin> set (codeUnits ''+-.I'')"
    obtain c r where cr: "dropWhile isWhiteSpace v = c # r"
      using ne by (cases "dropWhile isWhiteSpace v") auto
    have "parseFloat v = NaN"
      using nd nh
      by (intro parseFloat_no_literal [OF cr]) (simp_all add: cr codeUnits_def)
    then show "NumberInput_onChange v = Fin 0" by (simp add: 1)
  qed
  have 5: "parseFloat v < Fin 0 \<longrightarrow> NumberInput_onChange v = parseFloat v"
    by (cases "parseFloat v") (simp_all add: 1)
  have 6: "\<not> isFinite (parseFloat v) \<and> \<not> isNaN (parseFloat v) \<longrightarrow>
        NumberInput_onChange v = parseFloat v"
    by (simp add: 1)
  have 7: "knownCostPerAgent_r (knownCostPerAgent_onChange v a) = NumberInput_onChange v"
    "customEdgetierCost_r (customEdgetierCost_onChange v a) = NumberInput_onChange v"
    "numAgents_d (setNumAgents v a') = NumberInput_onChange v"
    "ahtMins_d (setAhtMins v a') = NumberInput_onChange v"
    "contactsPerMonth_d (setContactsPerMonth v a') = NumberInput_onChange v"
    "annualCostPerAgent_d (setAnnualCostPerAgent v a') = NumberInput_onChange v"
    "edgetierAnnualCost_d (setEdgetierAnnualCost v a') = NumberInput_onChange v"
    "annualRevenueInfluenced_d (setAnnualRevenueInfluenced v a') = NumberInput_onChange v"
    by (simp_all add: knownCostPerAgent_onChange_def customEdgetierCost_onChange_def
        setNumAgents_def setAhtMins_def setContactsPerMonth_def setAnnualCostPerAgent_def
        setEdgetierAnnualCost_def setAnnualRevenueInfluenced_def NumberInput_onChange_def)
  show ?thesis
    using 1 2 3 4 5 6 7 by (intro conjI)
qed

theorem C7_input_boundary_witness:
  "dropWhile isWhiteSpace (codeUnits '''') = [] \<and> NumberInput_onChange (codeUnits '''') = Fin 0
   \<and> dropWhile isWhiteSpace (codeUnits ''  '') = []
   \<and> NumberInput_onChange (codeUnits ''  '') = Fin 0
   \<and> dropWhile isWhiteSpace (codeUnits ''abc'') \<noteq> []
   \<and> \<not> isDigit (hd (dropWhile isWhiteSpace (codeUnits ''abc'')))
   \<and> hd (dropWhile isWhiteSpace (codeUnits ''abc'')) \<notin> set (codeUnits ''+-.I'')
   \<and> NumberInput_onChange (codeUnits ''abc'') = Fin 0
   \<and> parseFloat (codeUnits ''-5'') < Fin 0
   \<and> NumberInput_onChange (codeUnits ''-5'') = parseFloat (codeUnits ''-5'')
   \<and> \<not> isFinite (parseFloat (codeUnits ''-Infinity''))
   \<and> \<not> isNaN (parseFloat (codeUnits ''-Infinity''))
   \<and> NumberInput_onChange (codeUnits ''-Infinity'') = parseFloat (codeUnits ''-Infinity'')"
proof -
  have h: "dropWhile isWhiteSpace (codeUnits '''') = []"
    "dropWhile isWhiteSpace (codeUnits ''  '') = []"
    "dropWhile isWhiteSpace (codeUnits ''abc'') \<noteq> []"
    "\<not> isDigit (hd (dropWhile isWhiteSpace (codeUnits ''abc'')))"
    "hd (dropWhile isWhiteSpace (codeUnits ''abc'')) \<notin> set (codeUnits ''+-.I'')"
    "parseFloat (codeUnits ''-5'') < Fin 0"
    "\<not> isFinite (parseFloat (codeUnits ''-Infinity''))"
    "\<not> isNaN (parseFloat (codeUnits ''-Infinity''))"
    by (simp_all add: parse_defs or_zero_def)
  have e: "NumberInput_onChange (codeUnits '''') = Fin 0"
    by (rule mp [OF C7_input_boundary [of "codeUnits ''''" initial_r initial_d,
            THEN conjunct2, THEN conjunct2, THEN conjunct1] h(1)])
  have b: "NumberInput_onChange (codeUnits ''  '') = Fin 0"
    by (rule mp [OF C7_input_boundary [of "codeUnits ''  ''" initial_r initial_d,
            THEN conjunct2, THEN conjunct2, THEN conjunct1] h(2)])
  have a: "NumberInput_onChange (codeUnits ''abc'') = Fin 0"
    by (rule mp [OF C7_input_boundary [of "codeUnits ''abc''" initial_r initial_d,
            THEN conjunct2, THEN conjunct2, THEN conjunct2, THEN conjunct1]
          conjI [OF h(3) conjI [OF h(4) h(5)]]])
  have n: "NumberInput_onChange (codeUnits ''-5'') = parseFloat (codeUnits ''-5'')"
    by (rule mp [OF C7_input_boundary [of "codeUnits ''-5''" initial_r initial_d,
            THEN conjunct2, THEN conjunct2, THEN conjunct2, THEN conjunct2, THEN conjunct1]
          h(6)])
  have i: "NumberInput_onChange (codeUnits ''-Infinity'') = parseFloat (codeUnits ''-Infinity'')"
    by (rule mp [OF C7_input_boundary [of "codeUnits ''-Infinity''" initial_r initial_d,
            THEN conjunct2, THEN conjunct2, THEN conjunct2, THEN conjunct2, THEN conjunct2,
            THEN conjunct1]
          conjI [OF h(7) h(8)]])
  show ?thesis
    using h e b a n i by (intro conjI)
qed

text \<open>
  The claim as written says that a negative or non-finite entry is clamped to 0 before it
  reaches the engine. The entry -5 is delivered as -5 and stored as the cost of the
  three-step calculator; the text -Infinity is delivered as minus infinity.
\<close>

theorem C7_negative_not_clamped_counterexample:
  "NumberInput_onChange (codeUnits ''-5'') = Fin (- 5)
   \<and> NumberInput_onChange (codeUnits ''-5'') < Fin 0
   \<and> NumberInput_onChange (codeUnits ''-5'') \<noteq> Fin 0
   \<and> edgetierAnnualCost_d (setEdgetierAnnualCost (codeUnits ''-5'') initial_d) = Fin (- 5)
   \<and> NumberInput_onChange (codeUnits ''-Infinity'') = NInf"
  by (simp add: parse_defs or_zero_def setEdgetierAnnualCost_def)


section \<open>Cost per agent\<close>

text \<open>
  C8. In the six-step calculator the annual cost per agent is the entered known cost
  exactly in the branch where the cost mode is "known" and that cost is strictly positive.
  In every other case, also in "known" mode with an entered cost of at most 0, it is the
  entry of the region table for the selected region. The table has an entry for every
  region, and the fallback written after \<^verbatim>\<open>??\<close> is the UK/IE entry, 50000.
\<close>

theorem C8_annual_cost_per_agent:
  "res_annualCostPerAgent_r (results_r a)
     = (if costMode_r a = Known \<and> Fin 0 < knownCostPerAgent_r a then knownCostPerAgent_r a
        else nullish (REGION_COST_MAP (regionBand_r a)) (Fin 50000))
   \<and> REGION_COST_MAP (regionBand_r a) \<noteq> None
   \<and> REGION_COST_MAP UK_IE_NORDICS_ANZ = Some (Fin 50000)
   \<and> (costMode_r a = Known \<and> Fin 0 < knownCostPerAgent_r a \<longrightarrow>
        res_annualCostPerAgent_r (results_r a) = knownCostPerAgent_r a)
   \<and> (costMode_r a = Known \<and> knownCostPerAgent_r a \<le> Fin 0 \<longrightarrow>
        Some (res_annualCostPerAgent_r (results_r a)) = REGION_COST_MAP (regionBand_r a))
   \<and> (costMode_r a = Benchmark \<longrightarrow>
        Some (res_annualCostPerAgent_r (results_r a)) = REGION_COST_MAP (regionBand_r a))"
proof -
  have t: "REGION_COST_MAP (regionBand_r a) \<noteq> None"
    by (cases "regionBand_r a") simp_all
  then obtain c where c: "REGION_COST_MAP (regionBand_r a) = Some c" by blast
  have n: "\<not> Fin 0 < knownCostPerAgent_r a" if "knownCostPerAgent_r a \<le> Fin 0"
    using that by (rule not_pos_if_le_zero)
  have 1: "res_annualCostPerAgent_r (results_r a)
     = (if costMode_r a = Known \<and> Fin 0 < knownCostPerAgent_r a then knownCostPerAgent_r a
        else nullish (REGION_COST_MAP (regionBand_r a)) (Fin 50000))"
    by (simp add: results_r_def annualCostPerAgent_r_def)
  have 4: "costMode_r a = Known \<and> Fin 0 < knownCostPerAgent_r a \<longrightarrow>
        res_annualCostPerAgent_r (results_r a) = knownCostPerAgent_r a"
    by (simp add: 1)
  have 5: "costMode_r a = Known \<and> knownCostPerAgent_r a \<le> Fin 0 \<longrightarrow>
        Some (res_annualCostPerAgent_r (results_r a)) = REGION_COST_MAP (regionBand_r a)"
    using n by (auto simp add: 1 c)
  have 6: "costMode_r a = Benchmark \<longrightarrow>
        Some (res_annualCostPerAgent_r (results_r a)) = REGION_COST_MAP (regionBand_r a)"
    by (simp add: 1 c)
  have 3: "REGION_COST_MAP UK_IE_NORDICS_ANZ = Some (Fin 50000)" by simp
  show ?thesis
    using 1 t 3 4 5 6 by (intro conjI)
qed

theorem C8_annual_cost_per_agent_witness:
  "costMode_r (initial_r\<lparr>costMode_r := Known\<rparr>) = Known
   \<and> Fin 0 < knownCostPerAgent_r (initial_r\<lparr>costMode_r := Known\<rparr>)
   \<and> res_annualCostPerAgent_r (results_r (initial_r\<lparr>costMode_r := Known\<rparr>)) = Fin 45000
   \<and> costMode_r (initial_r\<lparr>costMode_r := Known, knownCostPerAgent_r := Fin 0,
        regionBand_r := EASTERN_EUROPE\<rparr>) = Known
   \<and> knownCostPerAgent_r (initial_r\<lparr>costMode_r := Known, knownCostPerAgent_r := Fin 0,
        regionBand_r := EASTERN_EUROPE\<rparr>) \<le> Fin 0
   \<and> res_annualCostPerAgent_r (results_r (initial_r\<lparr>costMode_r := Known,
        knownCostPerAgent_r := Fin 0, regionBand_r := EASTERN_EUROPE\<rparr>)) = Fin 30000
   \<and> costMode_r initial_r = Benchmark
   \<and> res_annualCostPerAgent_r (results_r initial_r) = Fin 50000"
proof -
  let ?k = "initial_r\<lparr>costMode_r := Known\<rparr>"
  let ?z = "initial_r\<lparr>costMode_r := Known, knownCostPerAgent_r := Fin 0,
        regionBand_r := EASTERN_EUROPE\<rparr>"
  have h: "costMode_r ?k = Known" "Fin 0 < knownCostPerAgent_r ?k"
    "costMode_r ?z = Known" "knownCostPerAgent_r ?z \<le> Fin 0"
    "costMode_r initial_r = Benchmark"
    by (simp_all add: initial_r_def)
  have v: "knownCostPerAgent_r ?k = Fin 45000"
    "REGION_COST_MAP (regionBand_r ?z) = Some (Fin 30000)"
    "REGION_COST_MAP (regionBand_r initial_r) = Some (Fin 50000)"
    by (simp_all add: initial_r_def)
  have k: "res_annualCostPerAgent_r (results_r ?k) = Fin 45000"
    using mp [OF C8_annual_cost_per_agent [of ?k, THEN conjunct2, THEN conjunct2,
          THEN conjunct2, THEN conjunct1] conjI [OF h(1) h(2)]]
    by (simp only: v)
  have z: "res_annualCostPerAgent_r (results_r ?z) = Fin 30000"
    using mp [OF C8_annual_cost_per_agent [of ?z, THEN conjunct2, THEN conjunct2,
          THEN conjunct2, THEN conjunct2, THEN conjunct1] conjI [OF h(3) h(4)]]
    by (simp only: v option.inject)
  have b: "res_annualCostPerAgent_r (results_r initial_r) = Fin 50000"
    using mp [OF C8_annual_cost_per_agent [of initial_r, THEN conjunct2, THEN conjunct2,
          THEN conjunct2, THEN conjunct2, THEN conjunct2] h(5)]
    by (simp only: v option.inject)
  show ?thesis
    using h k z b by (intro conjI)
qed


section \<open>No contacts\<close>

text \<open>
  C9, as the code has it. In the three-step calculator, when the contacts per year are 0
  (monthly contacts 0), the baseline cost per contact, the contacts avoided and the
  deflection saving of the result are 0. When in addition the handling time and the cost
  per agent are finite, the handling-time saving, the QA saving and the hours saved are 0;
  when the revenue is finite too, the revenue protected and the total annual benefit are
  finite. The two divisions by a possibly zero quantity are guarded: the cost per contact
  is 0 unless the contacts per year are positive, and the ROI is 0 unless the investment
  cost is positive. Nothing is said of the net gain, the ROI at a positive cost and the
  payback, which need not be finite.
\<close>

theorem C9_zero_volume:
  "(res_contactsPerYear_d (results_d a) = Fin 0 \<longrightarrow>
      res_costPerContactBaseline_d (results_d a) = Fin 0
      \<and> res_contactsAvoidedPerYear_d (results_d a) = Fin 0
      \<and> res_savingsDeflection_d (results_d a) = Fin 0)
   \<and> (res_contactsPerYear_d (results_d a) = Fin 0 \<and> isFinite (ahtMins_d a)
        \<and> isFinite (annualCostPerAgent_d a) \<longrightarrow>
      res_savingsAht_d (results_d a) = Fin 0
      \<and> res_savingsQa_d (results_d a) = Fin 0
      \<and> res_totalHoursSaved_d (results_d a) = Fin 0)
   \<and> (res_contactsPerYear_d (results_d a) = Fin 0 \<and> isFinite (ahtMins_d a)
        \<and> isFinite (annualCostPerAgent_d a) \<and> isFinite (annualRevenueInfluenced_d a) \<longrightarrow>
      isFinite (res_revenueProtected_d (results_d a))
      \<and> isFinite (res_totalAnnualBenefit_d (results_d a)))
   \<and> (\<not> Fin 0 < res_contactsPerYear_d (results_d a) \<longrightarrow>
      res_costPerContactBaseline_d (results_d a) = Fin 0)
   \<and> (\<not> Fin 0 < edgetierAnnualCost_d a \<longrightarrow> res_roiPct_d (results_d a) = Fin 0)"
proof -
  have pct: "isFinite (ahtReductionPct_d a)" "isFinite (qaEfficiencyGainPct_d a)"
    "isFinite (contactDeflectionPct_d a)" "isFinite (revenueProtectionPct_d a)"
    by (simp_all add: ahtReductionPct_d_def qaEfficiencyGainPct_d_def
        contactDeflectionPct_d_def revenueProtectionPct_d_def
        ASSUMPTIONS_ahtReductionPct_d_def ASSUMPTIONS_qaEfficiencyGainPct_d_def
        ASSUMPTIONS_contactDeflectionPct_d_def ASSUMPTIONS_revenueProtectionPct_d_def)
  then obtain p q d r where pq: "ahtReductionPct_d a = Fin p" "qaEfficiencyGainPct_d a = Fin q"
    "contactDeflectionPct_d a = Fin d" "revenueProtectionPct_d a = Fin r"
    by (metis finiteE)
  have Z: "res_costPerContactBaseline_d (results_d a) = Fin 0
      \<and> res_contactsAvoidedPerYear_d (results_d a) = Fin 0
      \<and> res_savingsDeflection_d (results_d a) = Fin 0"
    if "res_contactsPerYear_d (results_d a) = Fin 0"
  proof -
    have cy: "contactsPerYear_d a = Fin 0" using that by (simp add: results_d_def)
    show ?thesis
      by (simp add: results_d_def costPerContactBaseline_d_def savingsDeflection_d_def
          contactsAvoidedPerYear_d_def cy pq)
  qed
  have S: "res_savingsAht_d (results_d a) = Fin 0
      \<and> res_savingsQa_d (results_d a) = Fin 0
      \<and> res_totalHoursSaved_d (results_d a) = Fin 0
      \<and> (isFinite (annualRevenueInfluenced_d a) \<longrightarrow>
          isFinite (res_revenueProtected_d (results_d a))
          \<and> isFinite (res_totalAnnualBenefit_d (results_d a)))"
    if z0: "res_contactsPerYear_d (results_d a) = Fin 0" and fm: "isFinite (ahtMins_d a)"
      and fk: "isFinite (annualCostPerAgent_d a)"
  proof -
    have cy: "contactsPerYear_d a = Fin 0" using z0 by (simp add: results_d_def)
    obtain m where m: "ahtMins_d a = Fin m" using fm by (rule finiteE)
    obtain k where k: "annualCostPerAgent_d a = Fin k" using fk by (rule finiteE)
    have h: "costPerAgentHour_d a = Fin (k / 1760)"
      by (simp add: costPerAgentHour_d_def consts_defs k)
    have bh: "baselineHandlingHours_d a = Fin 0"
      by (simp add: baselineHandlingHours_d_def cy m)
    have nh: "newHandlingHours_d a = Fin 0"
      by (simp add: newHandlingHours_d_def newAhtMins_d_def cy m pq)
    have sa: "savingsAht_d a = Fin 0"
      by (simp add: savingsAht_d_def baselineHandlingCost_d_def newHandlingCost_d_def bh nh h)
    have ha: "hoursSavedAht_d a = Fin 0"
      by (simp add: hoursSavedAht_d_def bh nh)
    have qh: "baselineQaHours_d a = Fin 0"
      by (simp add: baselineQaHours_d_def consts_defs cy)
    have nq: "newQaHours_d a = Fin 0"
      by (simp add: newQaHours_d_def qh pq)
    have qc: "qaHourlyCost_d a = Fin (k / 1760 * 1.2)"
      by (simp add: qaHourlyCost_d_def h consts_defs)
    have sq: "savingsQa_d a = Fin 0"
      by (simp add: savingsQa_d_def baselineQaCost_d_def newQaCost_d_def qh nq qc)
    have hq: "hoursSavedQa_d a = Fin 0"
      by (simp add: hoursSavedQa_d_def qh nq)
    have sd: "savingsDeflection_d a = Fin 0"
      by (simp add: savingsDeflection_d_def contactsAvoidedPerYear_d_def
          costPerContactBaseline_d_def cy pq)
    have rv: "isFinite (revenueProtected_d a) \<and> isFinite (totalAnnualBenefit_d a)"
      if fv: "isFinite (annualRevenueInfluenced_d a)"
    proof -
      obtain v where v: "annualRevenueInfluenced_d a = Fin v" using fv by (rule finiteE)
      show ?thesis
        by (simp add: totalAnnualBenefit_d_def revenueProtected_d_def sa sq sd v pq)
    qed
    show ?thesis
      using rv by (simp add: results_d_def sa sq totalHoursSaved_d_def ha hq)
  qed
  have G1: "\<not> Fin 0 < res_contactsPerYear_d (results_d a) \<longrightarrow>
      res_costPerContactBaseline_d (results_d a) = Fin 0"
    by (simp add: results_d_def costPerContactBaseline_d_def)
  have G2: "\<not> Fin 0 < edgetierAnnualCost_d a \<longrightarrow> res_roiPct_d (results_d a) = Fin 0"
    by (simp add: results_d_def roiPct_d_def)
  show ?thesis
    using Z S G1 G2 by blast
qed

theorem C9_zero_volume_witness:
  "res_contactsPerYear_d (results_d (initial_d\<lparr>contactsPerMonth_d := Fin 0,
        edgetierAnnualCost_d := Fin 0\<rparr>)) = Fin 0
   \<and> isFinite (ahtMins_d (initial_d\<lparr>contactsPerMonth_d := Fin 0, edgetierAnnualCost_d := Fin 0\<rparr>))
   \<and> isFinite (annualCostPerAgent_d
        (initial_d\<lparr>contactsPerMonth_d := Fin 0, edgetierAnnualCost_d := Fin 0\<rparr>))
   \<and> isFinite (annualRevenueInfluenced_d
        (initial_d\<lparr>contactsPerMonth_d := Fin 0, edgetierAnnualCost_d := Fin 0\<rparr>))
   \<and> \<not> Fin 0 < res_contactsPerYear_d (results_d (initial_d\<lparr>contactsPerMonth_d := Fin 0,
        edgetierAnnualCost_d := Fin 0\<rparr>))
   \<and> \<not> Fin 0 < edgetierAnnualCost_d
        (initial_d\<lparr>contactsPerMonth_d := Fin 0, edgetierAnnualCost_d := Fin 0\<rparr>)
   \<and> res_costPerContactBaseline_d (results_d (initial_d\<lparr>contactsPerMonth_d := Fin 0,
        edgetierAnnualCost_d := Fin 0\<rparr>)) = Fin 0
   \<and> res_contactsAvoidedPerYear_d (results_d (initial_d\<lparr>contactsPerMonth_d := Fin 0,
        edgetierAnnualCost_d := Fin 0\<rparr>)) = Fin 0
   \<and> res_savingsDeflection_d (results_d (initial_d\<lparr>contactsPerMonth_d := Fin 0,
        edgetierAnnualCost_d := Fin 0\<rparr>)) = Fin 0
   \<and> res_savingsAht_d (results_d (initial_d\<lparr>contactsPerMonth_d := Fin 0,
        edgetierAnnualCost_d := Fin 0\<rparr>)) = Fin 0
   \<and> res_savingsQa_d (results_d (initial_d\<lparr>contactsPerMonth_d := Fin 0,
        edgetierAnnualCost_d := Fin 0\<rparr>)) = Fin 0
   \<and> res_totalHoursSaved_d (results_d (initial_d\<lparr>contactsPerMonth_d := Fin 0,
        edgetierAnnualCost_d := Fin 0\<rparr>)) = Fin 0
   \<and> isFinite (res_totalAnnualBenefit_d (results_d (initial_d\<lparr>contactsPerMonth_d := Fin 0,
        edgetierAnnualCost_d := Fin 0\<rparr>)))
   \<and> res_roiPct_d (results_d (initial_d\<lparr>contactsPerMonth_d := Fin 0,
        edgetierAnnualCost_d := Fin 0\<rparr>)) = Fin 0"
proof -
  let ?z = "initial_d\<lparr>contactsPerMonth_d := Fin 0, edgetierAnnualCost_d := Fin 0\<rparr>"
  have h: "res_contactsPerYear_d (results_d ?z) = Fin 0" "isFinite (ahtMins_d ?z)"
    "isFinite (annualCostPerAgent_d ?z)" "isFinite (annualRevenueInfluenced_d ?z)"
    "\<not> Fin 0 < res_contactsPerYear_d (results_d ?z)" "\<not> Fin 0 < edgetierAnnualCost_d ?z"
    by (simp_all add: results_d_def contactsPerYear_d_def initial_d_def)
  show ?thesis
    using h C9_zero_volume [of ?z] by blast
qed

text \<open>
  The claim as written says that with no contacts no field of the result is
  \<^verbatim>\<open>NaN\<close> or infinite. With 0 typed as the monthly contacts and 1e309 as the cost per
  agent, which the field stores as \<^verbatim>\<open>Infinity\<close>, the contacts per year are 0 and the
  handling-time saving is \<^verbatim>\<open>0 * Infinity - 0 * Infinity\<close>, that is \<^verbatim>\<open>NaN\<close>.
\<close>

theorem C9_zero_volume_counterexample:
  "setAnnualCostPerAgent (codeUnits ''1e309'') (setContactsPerMonth (codeUnits ''0'') initial_d)
     = initial_d\<lparr>contactsPerMonth_d := Fin 0, annualCostPerAgent_d := PInf\<rparr>
   \<and> res_contactsPerYear_d (results_d (initial_d\<lparr>contactsPerMonth_d := Fin 0,
        annualCostPerAgent_d := PInf\<rparr>)) = Fin 0
   \<and> res_savingsAht_d (results_d (initial_d\<lparr>contactsPerMonth_d := Fin 0,
        annualCostPerAgent_d := PInf\<rparr>)) = NaN
   \<and> \<not> allFinite_d (results_d (initial_d\<lparr>contactsPerMonth_d := Fin 0,
        annualCostPerAgent_d := PInf\<rparr>))"
  by (simp add: allFinite_d_def results_d_def d_defs consts_defs initial_d_def minus_jsnum_def
      setAnnualCostPerAgent_def setContactsPerMonth_def NumberInput_onChange_def
      parseFloat_overflow parseFloat_zero or_zero_def)


section \<open>Inputs of the branch not taken\<close>

text \<open>
  C10. In the six-step calculator, two answer records that differ only in the rollout
  scope give the same result in every field when the investment mode is custom, and two
  that differ only in the custom cost give the same result in every field when the
  investment mode is automatic.
\<close>

theorem C10_unused_investment_inputs:
  "(investmentMode_r a = Custom \<longrightarrow> results_r (a\<lparr>rolloutScope_r := s\<rparr>) = results_r a)
   \<and> (investmentMode_r a = Auto \<longrightarrow> results_r (a\<lparr>customEdgetierCost_r := c\<rparr>) = results_r a)"
  using rolloutScope_unused [of a s] customEdgetierCost_unused [of a c] by blast

theorem C10_unused_investment_inputs_witness:
  "investmentMode_r (initial_r\<lparr>investmentMode_r := Custom\<rparr>) = Custom
   \<and> results_r (initial_r\<lparr>investmentMode_r := Custom, rolloutScope_r := Multi\<rparr>)
       = results_r (initial_r\<lparr>investmentMode_r := Custom\<rparr>)
   \<and> investmentMode_r initial_r = Auto
   \<and> results_r (initial_r\<lparr>customEdgetierCost_r := Fin 1\<rparr>) = results_r initial_r"
proof -
  have h: "investmentMode_r (initial_r\<lparr>investmentMode_r := Custom\<rparr>) = Custom"
    "investmentMode_r initial_r = Auto"
    by (simp_all add: initial_r_def)
  have 1: "results_r (initial_r\<lparr>investmentMode_r := Custom, rolloutScope_r := Multi\<rparr>)
       = results_r (initial_r\<lparr>investmentMode_r := Custom\<rparr>)"
    by (rule mp [OF C10_unused_investment_inputs
          [of "initial_r\<lparr>investmentMode_r := Custom\<rparr>" Multi, THEN conjunct1] h(1)])
  have 2: "results_r (initial_r\<lparr>customEdgetierCost_r := Fin 1\<rparr>) = results_r initial_r"
    by (rule mp [OF C10_unused_investment_inputs
          [of initial_r _ "Fin 1", THEN conjunct2] h(2)])
  show ?thesis
    using h 1 2 by (intro conjI)
qed

end
